theory Spec2Isabelle
  imports Complex_Main
begin

section \<open>Common data\<close>

text \<open>
  A thrown JavaScript value. \<open>Fault msg\<close> is an \<open>Error\<close> object with that message, as
  thrown by the repository's collaborators (chain registry, RPC transport, signer,
  bridging SDK, HTTP client). \<open>InvalidAmount\<close> is the error kind of the amount codec
  of section 4.4 of the specification.
\<close>

datatype fault = Fault string | InvalidAmount

fun fault_message :: "fault \<Rightarrow> string" where
  "fault_message (Fault m) = m"
| "fault_message InvalidAmount = ''InvalidAmount''"

text \<open>A network identifier as the call sites pass it: a name or a numeric chain id.\<close>

datatype netid = NetName string | NetId nat

record chain =
  chain_id :: nat
  chain_name :: string

text \<open>
  \<open>startsWith\<close> of ECMAScript strings, for the one use the sources make of it:
  \<open>privateKey.startsWith('0x')\<close>.
\<close>

definition startsWith :: "string \<Rightarrow> string \<Rightarrow> bool" where
  "startsWith s p = (take (length p) s = p)"

text \<open>
  Decimal digits. \<open>digit_char\<close> is only applied to numbers below 10. \<open>digits n\<close>
  is the decimal numeral of \<open>n\<close> without leading zeros (empty for 0), \<open>show_nat\<close>
  is what a template literal prints for a non-negative integer, \<open>read_nat\<close> reads a
  digit string.
\<close>

definition is_digit :: "char \<Rightarrow> bool" where
  "is_digit c = (c \<in> set ''0123456789'')"

definition digit_char :: "nat \<Rightarrow> char" where
  "digit_char n = ''0123456789'' ! n"

definition digit_val :: "char \<Rightarrow> nat" where
  "digit_val c = of_char c - 48"

fun digits :: "nat \<Rightarrow> string" where
  "digits n = (if n = 0 then [] else digits (n div 10) @ [digit_char (n mod 10)])"

declare digits.simps [simp del]

definition show_nat :: "nat \<Rightarrow> string" where
  "show_nat n = (if n = 0 then ''0'' else digits n)"

definition read_nat :: "string \<Rightarrow> nat" where
  "read_nat s = foldl (\<lambda>a c. 10 * a + digit_val c) 0 s"

text \<open>
  JSON values as an HTTP response body carries them. A property that an object does
  not have reads as \<open>undefined\<close>, which is \<open>None\<close> in \<open>json option\<close>.
\<close>

datatype json =
  JNull | JBool bool | JNum rat | JStr string | JArr "json list" | JObj "(string \<times> json) list"

text \<open>ECMAScript truthiness, as \<open>!x\<close>, \<open>x || y\<close> and \<open>x ? a : b\<close> test it.\<close>

fun truthy :: "json option \<Rightarrow> bool" where
  "truthy None = False"
| "truthy (Some JNull) = False"
| "truthy (Some (JBool b)) = b"
| "truthy (Some (JNum n)) = (n \<noteq> 0)"
| "truthy (Some (JStr s)) = (s \<noteq> [])"
| "truthy (Some (JArr xs)) = True"
| "truthy (Some (JObj kvs)) = True"

text \<open>
  Property access \<open>x.f\<close> for the property names the sources read (none of them is a
  property of a string, number, boolean or array): a TypeError on \<open>undefined\<close> and
  \<open>null\<close>, the member of an object, \<open>undefined\<close> otherwise.
\<close>

fun get_prop :: "json option \<Rightarrow> string \<Rightarrow> fault + json option" where
  "get_prop None f = Inl (Fault (''Cannot read properties of undefined (reading '' @ f @ '')''))"
| "get_prop (Some JNull) f = Inl (Fault (''Cannot read properties of null (reading '' @ f @ '')''))"
| "get_prop (Some (JObj kvs)) f = Inr (map_of kvs f)"
| "get_prop (Some v) f = Inr None"

text \<open>Optional chaining \<open>x?.f\<close>: \<open>undefined\<close> where \<open>x.f\<close> would throw.\<close>

definition get_prop_opt :: "json option \<Rightarrow> string \<Rightarrow> json option" where
  "get_prop_opt x f = (case get_prop x f of Inl e \<Rightarrow> None | Inr v \<Rightarrow> v)"

text \<open>
  The result object of a tool handler: \<open>{ content: [{ type: 'text', text }], isError?,
  depositTxHash? | transactionHash? }\<close>. \<open>resultTxHash\<close> is the field
  \<open>depositTxHash\<close> of the bridge tool and \<open>transactionHash\<close> of the swap tool.
\<close>

record tool_result =
  content_text :: string
  isError :: bool
  resultTxHash :: "string option"

definition error_result :: "string \<Rightarrow> tool_result" where
  "error_result msg = \<lparr>content_text = msg, isError = True, resultTxHash = None\<rparr>"

text \<open>
  The promise an async handler returns: not settled, fulfilled with a result,
  rejected with a result-shaped object (\<open>reject({ content, isError: true })\<close>), or
  rejected with an error that nothing in the handler caught.
\<close>

datatype promise = Pending | Fulfilled tool_result | RejectedWith tool_result | RejectedError fault

text \<open>\<open>resolve\<close> and \<open>reject\<close> of a promise: the first settlement stays.\<close>

definition resolve :: "tool_result \<Rightarrow> promise \<Rightarrow> promise" where
  "resolve r p = (case p of Pending \<Rightarrow> Fulfilled r | _ \<Rightarrow> p)"

definition reject :: "tool_result \<Rightarrow> promise \<Rightarrow> promise" where
  "reject r p = (case p of Pending \<Rightarrow> RejectedWith r | _ \<Rightarrow> p)"

section \<open>Collaborators\<close>

record account =
  account_address :: string

record public_client =
  pc_ref :: nat
  pc_chain :: "chain option"
  pc_rpcUrl :: string

record wallet_client =
  wc_account :: "account option"
  wc_chain :: "chain option"
  wc_rpcUrl :: string

text \<open>The argument of \<open>sendTransaction\<close> and of \<open>writeContract\<close>.\<close>

record tx_request =
  req_to :: json
  req_data :: "json option"
  req_value :: int
  req_gas :: "int option"

record contract_call =
  cc_address :: string
  cc_functionName :: string
  cc_recipient :: string
  cc_amount :: int

text \<open>The bridging SDK: the route of a quote, and what \<open>executeQuote\<close> reports.\<close>

record route =
  originChainId :: nat
  destinationChainId :: nat
  inputToken :: string
  outputToken :: string
  isNative :: bool

record quote =
  quote_deposit :: string

text \<open>
  A progress report: \<open>progress.step\<close>, \<open>progress.status\<close>,
  \<open>progress.txReceipt?.transactionHash\<close> and \<open>progress.error\<close> as the template
  literal prints it.
\<close>

record progress =
  p_step :: string
  p_status :: string
  p_transactionHash :: "string option"
  p_error :: "string option"

text \<open>
  What happens while \<open>executeQuote\<close> runs: it calls \<open>onProgress\<close>, or the promise it
  returned rejects with an error of that message.
\<close>

datatype occurrence = Progress progress | ExecuteQuoteRejected string

text \<open>An error of the HTTP client: \<open>e.response?.data?.description\<close>,
  \<open>e.response?.data?.error\<close>, \<open>e.message\<close>.\<close>

record axios_error =
  ax_description :: "string option"
  ax_error :: "string option"
  ax_message :: string

text \<open>
  What a handler does to the outside world, in order: calls of the bridging SDK, HTTP
  requests, the wait, and submissions of transactions.
\<close>

datatype effect =
    GetQuote route int
  | ExecuteQuote wallet_client string
  | HttpGet string "(string \<times> json) list"
  | Delay nat
  | SendTransaction tx_request
  | WriteContract contract_call

definition emit :: "effect \<Rightarrow> 'a \<times> effect list \<Rightarrow> 'a \<times> effect list" where
  "emit e r = (fst r, e # snd r)"

text \<open>
  The collaborators. \<open>getChain\<close> and \<open>getRpcUrl\<close> live in chains.js and
  \<open>resolveAddress\<close> in ens.js, which are not among the sources; the others are
  functions of the libraries the sources import (the chain client library, the
  bridging SDK, the HTTP client) and of the language (\<open>BigInt\<close>, the string
  conversion of template literals). All are parameters, and each may throw where the
  result type has a \<open>fault\<close>. The tool handlers test the result of \<open>getChain\<close> for
  being undefined, so its result type admits that too.
\<close>

record libs =
  getChain :: "netid \<Rightarrow> fault + chain option"
  getRpcUrl :: "netid \<Rightarrow> fault + string"
  createPublicClient :: "chain option \<Rightarrow> string \<Rightarrow> fault option"
  privateKeyToAccount :: "string \<Rightarrow> fault + account"
  resolveAddress :: "string \<Rightarrow> string \<Rightarrow> fault + string"
  read_decimals :: "public_client \<Rightarrow> string \<Rightarrow> fault + nat"
  read_symbol :: "public_client \<Rightarrow> string \<Rightarrow> fault + string"
  parseEther :: "string \<Rightarrow> fault + int"
  parseUnits :: "string \<Rightarrow> nat \<Rightarrow> fault + int"
  sendTransaction :: "wallet_client \<Rightarrow> tx_request \<Rightarrow> fault + string"
  writeContract :: "wallet_client \<Rightarrow> contract_call \<Rightarrow> fault + string"
  getQuote :: "route \<Rightarrow> int \<Rightarrow> fault + quote"
  executeQuote :: "wallet_client \<Rightarrow> string \<Rightarrow> occurrence list"
  axios_get :: "string \<Rightarrow> (string \<times> json) list \<Rightarrow> string \<Rightarrow> axios_error + json option"
  BigInt :: "json \<Rightarrow> fault + int"
  ToString :: "json option \<Rightarrow> string"

text \<open>\<open>process.env\<close>: a variable is unset or holds a string.\<close>

record proc_env =
  WALLET_PRIVATE_KEY :: "string option"
  ONEINCH_API_KEY :: "string option"

section \<open>Client cache (services/clients.ts)\<close>

text \<open>
  The module state: \<open>const clientCache = new Map<string, PublicClient>()\<close> and the
  count of public clients constructed so far, which gives each client object its
  identity \<open>pc_ref\<close>.
\<close>

record clients_state =
  clientCache :: "string \<rightharpoonup> public_client"
  constructed :: nat

definition initial_clients :: clients_state where
  "initial_clients = \<lparr>clientCache = Map.empty, constructed = 0\<rparr>"

text \<open>
  \<open>getPublicClient(network = 'ethereum')\<close>. The parameter is a string, so
  \<open>String(network)\<close> is the string itself. A throw of \<open>getChain\<close>, \<open>getRpcUrl\<close> or
  the construction leaves the function before \<open>clientCache.set\<close>.
\<close>

definition getPublicClient ::
  "libs \<Rightarrow> string \<Rightarrow> clients_state \<Rightarrow> (fault + public_client) \<times> clients_state" where
  "getPublicClient L network s =
     (let cacheKey = network in
      case clientCache s cacheKey of
        Some client \<Rightarrow> (Inr client, s)
      | None \<Rightarrow>
          (case getChain L (NetName network) of
             Inl e \<Rightarrow> (Inl e, s)
           | Inr chain \<Rightarrow>
               (case getRpcUrl L (NetName network) of
                  Inl e \<Rightarrow> (Inl e, s)
                | Inr rpcUrl \<Rightarrow>
                    (case createPublicClient L chain rpcUrl of
                       Some e \<Rightarrow> (Inl e, s)
                     | None \<Rightarrow>
                         (let client = \<lparr>pc_ref = constructed s, pc_chain = chain,
                                         pc_rpcUrl = rpcUrl\<rparr>
                          in (Inr client,
                              s\<lparr>clientCache := (clientCache s)(cacheKey \<mapsto> client),
                                constructed := Suc (constructed s)\<rparr>))))))"

text \<open>
  \<open>getWalletClient(privateKey, network)\<close>: constructed anew on every call, never
  stored. \<open>createWalletClient\<close> only assembles the object.
\<close>

definition getWalletClient :: "libs \<Rightarrow> string \<Rightarrow> netid \<Rightarrow> fault + wallet_client" where
  "getWalletClient L privateKey network =
     (case getChain L network of
        Inl e \<Rightarrow> Inl e
      | Inr chain \<Rightarrow>
          (case getRpcUrl L network of
             Inl e \<Rightarrow> Inl e
           | Inr rpcUrl \<Rightarrow>
               (case privateKeyToAccount L privateKey of
                  Inl e \<Rightarrow> Inl e
                | Inr account \<Rightarrow>
                    Inr \<lparr>wc_account = Some account, wc_chain = chain, wc_rpcUrl = rpcUrl\<rparr>)))"

definition getAddressFromPrivateKey :: "libs \<Rightarrow> string \<Rightarrow> fault + string" where
  "getAddressFromPrivateKey L privateKey =
     (case privateKeyToAccount L privateKey of
        Inl e \<Rightarrow> Inl e
      | Inr account \<Rightarrow> Inr (account_address account))"

section \<open>Configuration (config.ts)\<close>

text \<open>\<open>getPrivateKey()\<close>: an unset or empty variable throws.\<close>

definition getPrivateKey :: "proc_env \<Rightarrow> fault + string" where
  "getPrivateKey env =
     (case WALLET_PRIVATE_KEY env of
        None \<Rightarrow> Inl (Fault ''WALLET_PRIVATE_KEY environment variable is not set. Please add it to your .local.env file.'')
      | Some privateKey \<Rightarrow>
          if privateKey = []
          then Inl (Fault ''WALLET_PRIVATE_KEY environment variable is not set. Please add it to your .local.env file.'')
          else Inr (if startsWith privateKey ''0x'' then privateKey else ''0x'' @ privateKey))"

section \<open>Amount codec\<close>

text \<open>
  The parts of a decimal string: what stands before the first point, and what stands
  after it.
\<close>

definition integer_part :: "string \<Rightarrow> string" where
  "integer_part s = takeWhile (\<lambda>c. c \<noteq> CHR ''.'') s"

definition fraction_part :: "string \<Rightarrow> string" where
  "fraction_part s = drop 1 (dropWhile (\<lambda>c. c \<noteq> CHR ''.'') s)"

text \<open>
  A valid decimal string: one or more digits, then optionally a point and one or more
  digits. A sign, a letter or a second point makes a string non-numeric.
\<close>

definition valid_decimal :: "string \<Rightarrow> bool" where
  "valid_decimal s =
     (integer_part s \<noteq> [] \<and> list_all is_digit (integer_part s)
      \<and> list_all is_digit (fraction_part s)
      \<and> (if CHR ''.'' \<in> set s then fraction_part s \<noteq> [] else True))"

definition strip_trailing_zeros :: "string \<Rightarrow> string" where
  "strip_trailing_zeros s = rev (dropWhile (\<lambda>c. c = CHR ''0'') (rev s))"

definition pad_left :: "nat \<Rightarrow> string \<Rightarrow> string" where
  "pad_left n s = replicate (n - length s) (CHR ''0'') @ s"

text \<open>
  Modelled from the spec: \<open>parseUnits\<close>, which transfer.ts imports from the chain
  client library and calls to convert an amount, is not among the sources. Section 4.4
  of the specification describes the conversion as \<open>toBaseUnits\<close>: it parses a decimal
  string and fails with \<open>InvalidAmount\<close> if the string is non-numeric, negative, or
  has more fractional digits than \<open>decimals\<close> allows (the policy is to reject, not to
  truncate).
\<close>

definition toBaseUnits :: "string \<Rightarrow> nat \<Rightarrow> fault + nat" where
  "toBaseUnits humanAmount decimals =
     (if \<not> valid_decimal humanAmount then Inl InvalidAmount
      else if decimals < length (fraction_part humanAmount) then Inl InvalidAmount
      else Inr (read_nat (integer_part humanAmount) * 10 ^ decimals
                + read_nat (fraction_part humanAmount)
                  * 10 ^ (decimals - length (fraction_part humanAmount))))"

text \<open>
  Modelled from the spec: \<open>formatUnits\<close>, which balance.ts imports from the chain
  client library, is not among the sources. Section 4.4 of the specification describes
  it as \<open>toHumanUnits\<close>: it always succeeds for non-negative integers and trims the
  trailing zero padding that \<open>decimals\<close> brings, preserving the exact value.
\<close>

definition toHumanUnits :: "nat \<Rightarrow> nat \<Rightarrow> string" where
  "toHumanUnits raw decimals =
     (let whole = show_nat (raw div 10 ^ decimals);
          frac = strip_trailing_zeros (pad_left decimals (digits (raw mod 10 ^ decimals)))
      in if frac = [] then whole else whole @ ''.'' @ frac)"

text \<open>
  Modelled from the spec: section 8 of the specification names \<open>canonicalForm(s)\<close>
  without defining it. It is read here as the decimal string of the same value with no
  insignificant zeros: no leading zeros in the integer part (a lone \<open>0\<close> stays), no
  trailing zeros in the fraction, and no point when no fraction is left.
\<close>

definition canonicalForm :: "string \<Rightarrow> string" where
  "canonicalForm s =
     (let whole = dropWhile (\<lambda>c. c = CHR ''0'') (integer_part s);
          frac = strip_trailing_zeros (fraction_part s)
      in (if whole = [] then ''0'' else whole) @ (if frac = [] then [] else ''.'' @ frac))"

section \<open>Transfers (services/transfer.ts)\<close>

record transfer_outcome =
  out_txHash :: string
  out_raw :: int
  out_formatted :: string
  out_symbol :: string
  out_decimals :: nat

text \<open>\<open>transferETH(privateKey, toAddressOrEns, amount, network)\<close>.\<close>

definition transferETH ::
  "libs \<Rightarrow> string \<Rightarrow> string \<Rightarrow> string \<Rightarrow> string \<Rightarrow> (fault + string) \<times> effect list" where
  "transferETH L privateKey toAddressOrEns amount network =
     (case resolveAddress L toAddressOrEns network of
        Inl e \<Rightarrow> (Inl e, [])
      | Inr toAddress \<Rightarrow>
          (let formattedKey = (if \<not> startsWith privateKey ''0x'' then ''0x'' @ privateKey
                               else privateKey)
           in case getWalletClient L formattedKey (NetName network) of
                Inl e \<Rightarrow> (Inl e, [])
              | Inr client \<Rightarrow>
                  (case parseEther L amount of
                     Inl e \<Rightarrow> (Inl e, [])
                   | Inr amountWei \<Rightarrow>
                       (let request = \<lparr>req_to = JStr toAddress, req_data = None,
                                        req_value = amountWei, req_gas = None\<rparr>
                        in emit (SendTransaction request)
                             (sendTransaction L client request, [])))))"

text \<open>
  \<open>transferERC20(tokenAddressOrEns, toAddressOrEns, amount, privateKey, network)\<close>.
  The amount is converted by the imported \<open>parseUnits\<close>, a collaborator, after the
  token's decimals have been read and before the wallet client is made; the function
  makes no test of the amount itself.
\<close>

definition transferERC20 ::
  "libs \<Rightarrow> string \<Rightarrow> string \<Rightarrow> string \<Rightarrow> string \<Rightarrow> string \<Rightarrow> clients_state
     \<Rightarrow> ((fault + transfer_outcome) \<times> clients_state) \<times> effect list" where
  "transferERC20 L tokenAddressOrEns toAddressOrEns amount privateKey network s =
     (case resolveAddress L tokenAddressOrEns network of
        Inl e \<Rightarrow> ((Inl e, s), [])
      | Inr tokenAddress \<Rightarrow>
     (case resolveAddress L toAddressOrEns network of
        Inl e \<Rightarrow> ((Inl e, s), [])
      | Inr toAddress \<Rightarrow>
     (let formattedKey = (if \<not> startsWith privateKey ''0x'' then ''0x'' @ privateKey
                          else privateKey)
      in case getPublicClient L network s of
        (Inl e, s1) \<Rightarrow> ((Inl e, s1), [])
      | (Inr publicClient, s1) \<Rightarrow>
     (case read_decimals L publicClient tokenAddress of
        Inl e \<Rightarrow> ((Inl e, s1), [])
      | Inr decimals \<Rightarrow>
     (case read_symbol L publicClient tokenAddress of
        Inl e \<Rightarrow> ((Inl e, s1), [])
      | Inr symbol \<Rightarrow>
     (case parseUnits L amount decimals of
        Inl e \<Rightarrow> ((Inl e, s1), [])
      | Inr rawAmount \<Rightarrow>
     (case getWalletClient L formattedKey (NetName network) of
        Inl e \<Rightarrow> ((Inl e, s1), [])
      | Inr walletClient \<Rightarrow>
     (let call = \<lparr>cc_address = tokenAddress, cc_functionName = ''transfer'',
                  cc_recipient = toAddress, cc_amount = rawAmount\<rparr>
      in emit (WriteContract call)
           ((case writeContract L walletClient call of
               Inl e \<Rightarrow> Inl e
             | Inr hash \<Rightarrow>
                 Inr \<lparr>out_txHash = hash, out_raw = rawAmount, out_formatted = amount,
                      out_symbol = symbol, out_decimals = decimals\<rparr>,
             s1), [])))))))))"

text \<open>
  \<open>approveERC20(tokenAddressOrEns, spenderAddressOrEns, amount, privateKey, network)\<close>.
\<close>

definition approveERC20 ::
  "libs \<Rightarrow> string \<Rightarrow> string \<Rightarrow> string \<Rightarrow> string \<Rightarrow> string \<Rightarrow> clients_state
     \<Rightarrow> ((fault + transfer_outcome) \<times> clients_state) \<times> effect list" where
  "approveERC20 L tokenAddressOrEns spenderAddressOrEns amount privateKey network s =
     (case resolveAddress L tokenAddressOrEns network of
        Inl e \<Rightarrow> ((Inl e, s), [])
      | Inr tokenAddress \<Rightarrow>
     (case resolveAddress L spenderAddressOrEns network of
        Inl e \<Rightarrow> ((Inl e, s), [])
      | Inr spenderAddress \<Rightarrow>
     (let formattedKey = (if \<not> startsWith privateKey ''0x'' then ''0x'' @ privateKey
                          else privateKey)
      in case getPublicClient L network s of
        (Inl e, s1) \<Rightarrow> ((Inl e, s1), [])
      | (Inr publicClient, s1) \<Rightarrow>
     (case read_decimals L publicClient tokenAddress of
        Inl e \<Rightarrow> ((Inl e, s1), [])
      | Inr decimals \<Rightarrow>
     (case read_symbol L publicClient tokenAddress of
        Inl e \<Rightarrow> ((Inl e, s1), [])
      | Inr symbol \<Rightarrow>
     (case parseUnits L amount decimals of
        Inl e \<Rightarrow> ((Inl e, s1), [])
      | Inr rawAmount \<Rightarrow>
     (case getWalletClient L formattedKey (NetName network) of
        Inl e \<Rightarrow> ((Inl e, s1), [])
      | Inr walletClient \<Rightarrow>
     (let call = \<lparr>cc_address = tokenAddress, cc_functionName = ''approve'',
                  cc_recipient = spenderAddress, cc_amount = rawAmount\<rparr>
      in emit (WriteContract call)
           ((case writeContract L walletClient call of
               Inl e \<Rightarrow> Inl e
             | Inr hash \<Rightarrow>
                 Inr \<lparr>out_txHash = hash, out_raw = rawAmount, out_formatted = amount,
                      out_symbol = symbol, out_decimals = decimals\<rparr>,
             s1), [])))))))))"

section \<open>Bridge tool (tools.ts, bridge_native_eth_across)\<close>

record bridge_input =
  br_originNetwork :: string
  br_destinationNetwork :: string
  br_amountInEth :: string

text \<open>The table \<open>wethAddresses\<close>; a chain id without an entry reads as undefined.\<close>

definition wethAddresses :: "nat \<Rightarrow> string option" where
  "wethAddresses i =
     (if i = 1 then Some ''0xC02aaA39b223FE8D0A0e5C4F27eAD9083C756Cc2''
      else if i = 10 then Some ''0x4200000000000000000000000000000000000006''
      else if i = 42161 then Some ''0x82aF49447D8a07e3bd95BD0d56f35241523fBab1''
      else None)"

text \<open>
  The callback \<open>onProgress\<close> of the handler, acting on the promise the handler
  returned. Its four tests run one after the other; the two that only write to the
  console (a successful approval, a successful fill) change nothing and are left out,
  as console output is throughout.
\<close>

definition onProgress :: "progress \<Rightarrow> promise \<Rightarrow> promise" where
  "onProgress pr p =
     (let p1 =
        (if p_step pr = ''deposit'' \<and> p_status pr = ''txSuccess''
         then (case p_transactionHash pr of
                 Some h \<Rightarrow>
                   if h \<noteq> []
                   then resolve \<lparr>content_text = ''Successfully initiated ETH bridge. Deposit Tx: '' @ h,
                                 isError = False, resultTxHash = Some h\<rparr> p
                   else reject (error_result ''Deposit transaction successful but no transaction hash found.'') p
               | None \<Rightarrow>
                   reject (error_result ''Deposit transaction successful but no transaction hash found.'') p)
         else p)
      in if p_status pr = ''txError'' \<or> p_status pr = ''error''
         then reject (error_result (''Bridging failed at step '' @ p_step pr @ ''. Reason: ''
                @ (case p_error pr of
                     Some e \<Rightarrow> if e \<noteq> [] then e else ''Unknown error''
                   | None \<Rightarrow> ''Unknown error''))) p1
         else p1)"

text \<open>One occurrence: a progress report, or the \<open>.catch\<close> of \<open>executeQuote\<close>.\<close>

fun settle :: "occurrence \<Rightarrow> promise \<Rightarrow> promise" where
  "settle (Progress pr) p = onProgress pr p"
| "settle (ExecuteQuoteRejected m) p = reject (error_result (''Error executing quote: '' @ m)) p"

text \<open>The occurrences of a run, in the order in which they happen.\<close>

fun observe :: "occurrence list \<Rightarrow> promise \<Rightarrow> promise" where
  "observe [] p = p"
| "observe (x # xs) p = observe xs (settle x p)"

text \<open>
  The handler. Up to the call of \<open>executeQuote\<close> it is an async function: a \<open>return\<close>
  fulfils its promise, a throw of a collaborator (none of the calls stands in a
  \<open>try\<close>) rejects it with the error thrown. From there on the promise is the one that
  \<open>onProgress\<close> and the \<open>.catch\<close> settle; it stays pending when nothing settles it.
\<close>

definition bridge_native_eth_across ::
  "libs \<Rightarrow> proc_env \<Rightarrow> bridge_input \<Rightarrow> promise \<times> effect list" where
  "bridge_native_eth_across L env input =
     (case WALLET_PRIVATE_KEY env of
        None \<Rightarrow> (Fulfilled (error_result ''WALLET_PRIVATE_KEY environment variable is not set.''), [])
      | Some privateKey \<Rightarrow>
     if privateKey = []
     then (Fulfilled (error_result ''WALLET_PRIVATE_KEY environment variable is not set.''), [])
     else
     (let formattedKey = (if startsWith privateKey ''0x'' then privateKey else ''0x'' @ privateKey)
      in case getChain L (NetName (br_originNetwork input)) of
        Inl e \<Rightarrow> (RejectedError e, [])
      | Inr originChain \<Rightarrow>
     (case getChain L (NetName (br_destinationNetwork input)) of
        Inl e \<Rightarrow> (RejectedError e, [])
      | Inr destinationChain \<Rightarrow>
     (case originChain of
        None \<Rightarrow> (Fulfilled (error_result (''Unsupported origin network: '' @ br_originNetwork input)), [])
      | Some oc \<Rightarrow>
     (case destinationChain of
        None \<Rightarrow> (Fulfilled (error_result (''Unsupported destination network: ''
                    @ br_destinationNetwork input)), [])
      | Some dc \<Rightarrow>
     (case wethAddresses (chain_id oc) of
        None \<Rightarrow> (Fulfilled (error_result (''WETH address not configured for origin chain ID: ''
                    @ show_nat (chain_id oc))), [])
      | Some inputTokenAddress \<Rightarrow>
     (case wethAddresses (chain_id dc) of
        None \<Rightarrow> (Fulfilled (error_result (''WETH address not configured for destination chain ID: ''
                    @ show_nat (chain_id dc))), [])
      | Some outputTokenAddress \<Rightarrow>
     (case parseEther L (br_amountInEth input) of
        Inl e \<Rightarrow> (RejectedError e, [])
      | Inr inputAmount \<Rightarrow>
     (let r = \<lparr>originChainId = chain_id oc, destinationChainId = chain_id dc,
               inputToken = inputTokenAddress, outputToken = outputTokenAddress,
               isNative = True\<rparr>
      in emit (GetQuote r inputAmount)
     (case getQuote L r inputAmount of
        Inl e \<Rightarrow> (RejectedError e, [])
      | Inr q \<Rightarrow>
     (case getWalletClient L formattedKey (NetId (chain_id oc)) of
        Inl e \<Rightarrow> (RejectedError e, [])
      | Inr walletClient \<Rightarrow>
     (case wc_account walletClient of
        None \<Rightarrow> (Fulfilled (error_result ''Failed to initialize wallet client with an account.''), [])
      | Some a \<Rightarrow>
          emit (ExecuteQuote walletClient (quote_deposit q))
            (observe (executeQuote L walletClient (quote_deposit q)) Pending, [])))))))))))))"

section \<open>Swap tool (tools.ts, swap_tokens_1inch)\<close>

text \<open>
  The arguments as the caller sends them, and as the handler receives them once the
  schema has filled in the defaults.
\<close>

record raw_swap_input =
  raw_fromTokenAddress :: string
  raw_toTokenAddress :: string
  raw_amount :: string
  raw_network :: "string option"
  raw_slippage :: "rat option"

record swap_input =
  sw_fromTokenAddress :: string
  sw_toTokenAddress :: string
  sw_amount :: string
  sw_network :: string
  sw_slippage :: rat

text \<open>
  The schema of the tool: three strings with no further test, \<open>network\<close> optional with
  default \<open>ethereum\<close>, \<open>slippage\<close> a number with \<open>min(0.01)\<close>, \<open>max(50)\<close> and default 1.
  A number that JSON carries is a rational, and for a double the comparison with the
  double nearest to 0.01 agrees with the comparison with 1/100.
\<close>

definition swap_schema :: "raw_swap_input \<Rightarrow> string + swap_input" where
  "swap_schema raw =
     (let network = (case raw_network raw of None \<Rightarrow> ''ethereum'' | Some n \<Rightarrow> n);
          slippage = (case raw_slippage raw of None \<Rightarrow> 1 | Some x \<Rightarrow> x)
      in if slippage < 1 / 100 then Inl ''Number must be greater than or equal to 0.01''
         else if 50 < slippage then Inl ''Number must be less than or equal to 50''
         else Inr \<lparr>sw_fromTokenAddress = raw_fromTokenAddress raw,
                   sw_toTokenAddress = raw_toTokenAddress raw,
                   sw_amount = raw_amount raw,
                   sw_network = network,
                   sw_slippage = slippage\<rparr>)"

text \<open>\<open>a || b\<close> on values that are undefined or strings.\<close>

definition or_else :: "string option \<Rightarrow> string option \<Rightarrow> string option" where
  "or_else a b = (case a of Some x \<Rightarrow> if x \<noteq> [] then a else b | None \<Rightarrow> b)"

text \<open>The outer \<open>catch\<close> of the handler:
  \<open>error.shortMessage || error.message || "An unknown error ..."\<close>.\<close>

definition swap_failed :: "fault \<Rightarrow> promise" where
  "swap_failed e =
     Fulfilled (error_result (''Swap failed: ''
       @ (if fault_message e \<noteq> [] then fault_message e
          else ''An unknown error occurred during the swap process.'')))"

definition invalid_swap_data :: promise where
  "invalid_swap_data =
     Fulfilled (error_result ''Invalid swap data received from 1inch (missing tx fields).'')"

text \<open>
  From the response of the swap request to the end: the test of the transaction
  fields, the request object, the submission and the text of the result.
\<close>

definition swap_submit ::
  "libs \<Rightarrow> chain \<Rightarrow> wallet_client \<Rightarrow> json option \<Rightarrow> promise \<times> effect list" where
  "swap_submit L chain walletClient swapApiResponseData =
     (case get_prop swapApiResponseData ''tx'' of
        Inl e \<Rightarrow> (swap_failed e, [])
      | Inr txData \<Rightarrow>
     if \<not> truthy txData then (invalid_swap_data, [])
     else
     (case get_prop_opt txData ''to'' of
        None \<Rightarrow> (invalid_swap_data, [])
      | Some tx_to \<Rightarrow>
     if \<not> truthy (Some tx_to) then (invalid_swap_data, [])
     else
     (case get_prop_opt txData ''data'' of
        None \<Rightarrow> (invalid_swap_data, [])
      | Some tx_data \<Rightarrow>
     if \<not> truthy (Some tx_data) then (invalid_swap_data, [])
     else
     (case get_prop_opt txData ''value'' of
        None \<Rightarrow> (invalid_swap_data, [])
      | Some tx_value \<Rightarrow>
     (case BigInt L tx_value of
        Inl e \<Rightarrow> (swap_failed e, [])
      | Inr v \<Rightarrow>
     (case (case get_prop_opt txData ''gas'' of
              None \<Rightarrow> Inr None
            | Some g \<Rightarrow> if truthy (Some g)
                         then (case BigInt L g of Inl e \<Rightarrow> Inl e | Inr n \<Rightarrow> Inr (Some n))
                         else Inr None) of
        Inl e \<Rightarrow> (swap_failed e, [])
      | Inr gas \<Rightarrow>
     (let transactionRequest = \<lparr>req_to = tx_to, req_data = Some tx_data, req_value = v,
                                req_gas = gas\<rparr>
      in emit (SendTransaction transactionRequest)
     (case sendTransaction L walletClient transactionRequest of
        Inl e \<Rightarrow> (swap_failed e, [])
      | Inr hash \<Rightarrow>
     (let toToken = get_prop_opt swapApiResponseData ''toToken'';
          toTokenSymbol = (if truthy (get_prop_opt toToken ''symbol'')
                           then ToString L (get_prop_opt toToken ''symbol'')
                           else ''Unknown Token'');
          toTokenDecimals = (if get_prop_opt toToken ''decimals'' \<noteq> None
                             then ToString L (get_prop_opt toToken ''decimals'')
                             else ''N/A'')
      in (Fulfilled \<lparr>content_text = ''Swap transaction submitted. Hash: '' @ hash
                        @ ''. Expected output: ''
                        @ ToString L (get_prop_opt swapApiResponseData ''toAmount'')
                        @ '' '' @ toTokenSymbol @ '' (raw amount, decimals: ''
                        @ toTokenDecimals @ '')'',
                      isError = False, resultTxHash = Some hash\<rparr>, []))))))))))"

text \<open>The object \<open>swapApiParams\<close>: the query of the swap request.\<close>

definition swapApiParams :: "swap_input \<Rightarrow> string \<Rightarrow> (string \<times> json) list" where
  "swapApiParams input fromWalletAddress =
     [(''src'', JStr (sw_fromTokenAddress input)),
      (''dst'', JStr (sw_toTokenAddress input)),
      (''amount'', JStr (sw_amount input)),
      (''from'', JStr fromWalletAddress),
      (''slippage'', JNum (sw_slippage input))]"

text \<open>The request for the swap data, after the wait.\<close>

definition swap_quote ::
  "libs \<Rightarrow> swap_input \<Rightarrow> chain \<Rightarrow> wallet_client \<Rightarrow> string \<Rightarrow> string \<Rightarrow> string
     \<Rightarrow> promise \<times> effect list" where
  "swap_quote L input chain walletClient fromWalletAddress API_BASE_URL apiKey =
     emit (HttpGet (API_BASE_URL @ ''/swap'') (swapApiParams input fromWalletAddress))
     (case axios_get L (API_BASE_URL @ ''/swap'') (swapApiParams input fromWalletAddress) apiKey of
        Inl e \<Rightarrow>
          (Fulfilled (error_result (''Error fetching swap data from 1inch: ''
             @ (case or_else (or_else (ax_description e) (ax_error e)) (Some (ax_message e)) of
                  Some d \<Rightarrow> if d \<noteq> [] then d else ''Unknown error''
                | None \<Rightarrow> ''Unknown error''))), [])
      | Inr swapApiResponseData \<Rightarrow> swap_submit L chain walletClient swapApiResponseData)"

text \<open>
  The body of the outer \<open>try\<close>: the spender lookup, the wait of 1100 milliseconds
  (\<open>await delay(1100)\<close>), then the swap request. A failure to read
  \<open>spenderResponse.data.address\<close> is caught with the failure of the request.
\<close>

definition swap_try ::
  "libs \<Rightarrow> swap_input \<Rightarrow> chain \<Rightarrow> wallet_client \<Rightarrow> string \<Rightarrow> string \<Rightarrow> string
     \<Rightarrow> promise \<times> effect list" where
  "swap_try L input chain walletClient fromWalletAddress API_BASE_URL apiKey =
     emit (HttpGet (API_BASE_URL @ ''/approve/spender'') [])
     (case axios_get L (API_BASE_URL @ ''/approve/spender'') [] apiKey of
        Inl e \<Rightarrow> (Fulfilled (error_result (''Error fetching 1inch spender: '' @ ax_message e)), [])
      | Inr spenderData \<Rightarrow>
     (case get_prop spenderData ''address'' of
        Inl e \<Rightarrow> (Fulfilled (error_result (''Error fetching 1inch spender: '' @ fault_message e)), [])
      | Inr spenderAddress \<Rightarrow>
          emit (Delay 1100)
            (swap_quote L input chain walletClient fromWalletAddress API_BASE_URL apiKey)))"

text \<open>
  The handler, from the configuration tests to the outer \<open>try\<close>. The source tests
  the API key a second time after reading it again from the same variable; that test
  cannot fail where the first one passed. The calls of \<open>getChain\<close> and
  \<open>getWalletClient\<close> stand before the \<open>try\<close>, so a throw of theirs rejects the
  promise.
\<close>

definition swap_tokens_1inch ::
  "libs \<Rightarrow> proc_env \<Rightarrow> swap_input \<Rightarrow> promise \<times> effect list" where
  "swap_tokens_1inch L env input =
     (case ONEINCH_API_KEY env of
        None \<Rightarrow> (Fulfilled (error_result ''Server configuration error: Missing 1inch API key.''), [])
      | Some apiKey \<Rightarrow>
     if apiKey = []
     then (Fulfilled (error_result ''Server configuration error: Missing 1inch API key.''), [])
     else
     (case WALLET_PRIVATE_KEY env of
        None \<Rightarrow> (Fulfilled (error_result ''Server configuration error: Missing wallet private key.''), [])
      | Some privateKey \<Rightarrow>
     if privateKey = []
     then (Fulfilled (error_result ''Server configuration error: Missing wallet private key.''), [])
     else
     (let formattedPk = (if startsWith privateKey ''0x'' then privateKey else ''0x'' @ privateKey)
      in case getChain L (NetName (sw_network input)) of
        Inl e \<Rightarrow> (RejectedError e, [])
      | Inr None \<Rightarrow> (Fulfilled (error_result (''Unsupported network: '' @ sw_network input)), [])
      | Inr (Some chain) \<Rightarrow>
     (let chainId = chain_id chain
      in case getWalletClient L formattedPk (NetId chainId) of
        Inl e \<Rightarrow> (RejectedError e, [])
      | Inr walletClient \<Rightarrow>
     (case wc_account walletClient of
        None \<Rightarrow> (Fulfilled (error_result ''Failed to initialize wallet client with an account.''), [])
      | Some a \<Rightarrow>
          swap_try L input chain walletClient (account_address a)
            (''https://api.1inch.dev/swap/v6.0/'' @ show_nat chainId) apiKey)))))"

text \<open>
  The tool as the protocol server runs it: the arguments are parsed with the schema
  first (the comment in the bridge handler says that validation is left to the server
  and the schema), and the handler runs on the parsed arguments. The server is not
  among the sources; a refusal by the schema is a rejection with the schema's message,
  and the handler is not called.
\<close>

definition swap_tool :: "libs \<Rightarrow> proc_env \<Rightarrow> raw_swap_input \<Rightarrow> promise \<times> effect list" where
  "swap_tool L env raw =
     (case swap_schema raw of
        Inl msg \<Rightarrow> (RejectedError (Fault msg), [])
      | Inr input \<Rightarrow> swap_tokens_1inch L env input)"

text \<open>Counting the waits and the submissions in what a handler did.\<close>

fun is_Delay :: "effect \<Rightarrow> bool" where
  "is_Delay (Delay ms) = True"
| "is_Delay e = False"

fun is_HttpGet :: "effect \<Rightarrow> bool" where
  "is_HttpGet (HttpGet url params) = True"
| "is_HttpGet e = False"

fun is_submission :: "effect \<Rightarrow> bool" where
  "is_submission (SendTransaction r) = True"
| "is_submission (WriteContract c) = True"
| "is_submission (ExecuteQuote w d) = True"
| "is_submission e = False"

section \<open>Concrete collaborators\<close>

text \<open>
  Collaborators for running the functions on concrete inputs. In \<open>demo_libs\<close> the name
  \<open>ethereum\<close> and the numeric string \<open>1\<close> resolve to the same chain, as the registry
  of section 4.1 of the specification accepts a name or a numeric chain id written as
  a string; the signer's account address is the key it was given; amounts are
  converted by \<open>rounding_parseUnits\<close>; the bridging SDK
  reports a successful approval and a successful deposit and never a fill; the
  aggregator answers the spender lookup and returns a complete quote.
\<close>

definition mainnet :: chain where
  "mainnet = \<lparr>chain_id = 1, chain_name = ''Ethereum''\<rparr>"

definition optimism :: chain where
  "optimism = \<lparr>chain_id = 10, chain_name = ''OP Mainnet''\<rparr>"

definition demo_getChain :: "netid \<Rightarrow> fault + chain option" where
  "demo_getChain n =
     (if n = NetName ''ethereum'' \<or> n = NetName ''1'' \<or> n = NetId 1 then Inr (Some mainnet)
      else if n = NetName ''optimism'' \<or> n = NetName ''10'' \<or> n = NetId 10
        then Inr (Some optimism)
      else Inl (Fault ''Unsupported network''))"

definition demo_getRpcUrl :: "netid \<Rightarrow> fault + string" where
  "demo_getRpcUrl n =
     (if n = NetName ''ethereum'' \<or> n = NetName ''1'' \<or> n = NetId 1
        then Inr ''https://eth.example''
      else if n = NetName ''optimism'' \<or> n = NetName ''10'' \<or> n = NetId 10
        then Inr ''https://op.example''
      else Inl (Fault ''Unsupported network''))"

definition approve_ok :: progress where
  "approve_ok = \<lparr>p_step = ''approve'', p_status = ''txSuccess'',
                  p_transactionHash = Some ''0xa1'', p_error = None\<rparr>"

definition approve_failed :: progress where
  "approve_failed = \<lparr>p_step = ''approve'', p_status = ''txError'',
                      p_transactionHash = None, p_error = Some ''reverted''\<rparr>"

definition deposit_ok :: progress where
  "deposit_ok = \<lparr>p_step = ''deposit'', p_status = ''txSuccess'',
                  p_transactionHash = Some ''0xd1'', p_error = None\<rparr>"

definition fill_ok :: progress where
  "fill_ok = \<lparr>p_step = ''fill'', p_status = ''txSuccess'',
               p_transactionHash = Some ''0xf1'', p_error = None\<rparr>"

definition good_quote :: json where
  "good_quote = JObj [(''tx'', JObj [(''to'', JStr ''0xRouter''), (''data'', JStr ''0xabcd''),
                                      (''value'', JStr ''0'')]),
                      (''toAmount'', JStr ''990'')]"

definition quote_without_to :: json where
  "quote_without_to = JObj [(''tx'', JObj [(''data'', JStr ''0xabcd''), (''value'', JStr ''0'')]),
                            (''toAmount'', JStr ''990'')]"

definition demo_axios_get ::
  "json \<Rightarrow> string \<Rightarrow> (string \<times> json) list \<Rightarrow> string \<Rightarrow> axios_error + json option" where
  "demo_axios_get q url params apiKey =
     (if params = [] then Inr (Some (JObj [(''address'', JStr ''0xSpender'')]))
      else Inr (Some q))"

text \<open>
  A conversion for the place of the imported \<open>parseUnits\<close>. It accepts an optional
  sign, digits, and an optional point followed by digits; it does not refuse a fraction
  longer than the decimals but rounds it half up, and it throws on any other string.
  On the amounts used below (\<open>1.234\<close> and \<open>0.999\<close> at 2 decimals) the chain client
  library returns the same integers, 123 and 100.
\<close>

definition rounding_parseUnits :: "string \<Rightarrow> nat \<Rightarrow> fault + int" where
  "rounding_parseUnits v decimals =
     (let negative = (v \<noteq> [] \<and> hd v = CHR ''-'');
          body = (if negative then tl v else v);
          whole = integer_part body;
          frac = fraction_part body
      in if \<not> (list_all is_digit whole \<and> list_all is_digit frac)
         then Inl (Fault ''InvalidDecimalNumberError'')
         else
           (let n = read_nat (whole @ frac);
                k = length frac;
                r = (if k \<le> decimals then n * 10 ^ (decimals - k)
                     else (n + 5 * 10 ^ (k - decimals - 1)) div 10 ^ (k - decimals))
            in Inr (if negative then - int r else int r)))"

definition demo_libs :: libs where
  "demo_libs =
     \<lparr>getChain = demo_getChain,
      getRpcUrl = demo_getRpcUrl,
      createPublicClient = (\<lambda>c u. None),
      privateKeyToAccount = (\<lambda>k. Inr \<lparr>account_address = k\<rparr>),
      resolveAddress = (\<lambda>a n. Inr a),
      read_decimals = (\<lambda>c t. Inr 2),
      read_symbol = (\<lambda>c t. Inr ''TKN''),
      parseEther = (\<lambda>a. Inr 1000),
      parseUnits = rounding_parseUnits,
      sendTransaction = (\<lambda>w r. Inr ''0x5e''),
      writeContract = (\<lambda>w c. Inr ''0x3c''),
      getQuote = (\<lambda>r a. Inr \<lparr>quote_deposit = ''deposit''\<rparr>),
      executeQuote = (\<lambda>w d. [Progress approve_ok, Progress deposit_ok]),
      axios_get = demo_axios_get good_quote,
      BigInt = (\<lambda>j. Inr 0),
      ToString = (\<lambda>j. ''?'')\<rparr>"

definition broken_libs :: libs where
  "broken_libs = demo_libs\<lparr>createPublicClient := (\<lambda>c u. Some (Fault ''bad RPC URL''))\<rparr>"

definition demo_env :: proc_env where
  "demo_env = \<lparr>WALLET_PRIVATE_KEY = Some ''ab12'', ONEINCH_API_KEY = Some ''key''\<rparr>"

definition demo_bridge_input :: bridge_input where
  "demo_bridge_input = \<lparr>br_originNetwork = ''ethereum'', br_destinationNetwork = ''optimism'',
                         br_amountInEth = ''0.1''\<rparr>"

text \<open>
  The state after \<open>getPublicClient('ethereum')\<close> followed by \<open>getPublicClient('1')\<close>
  on a fresh module, under a registry that resolves both to the same chain.
\<close>

definition alias_state :: clients_state where
  "alias_state =
     snd (getPublicClient demo_libs ''1''
            (snd (getPublicClient demo_libs ''ethereum'' initial_clients)))"

text \<open>
  Variants of the bridging SDK: one that reports a fill after the deposit, one that
  reports a failed approval and then a successful deposit, and one whose quote
  provider rejects.
\<close>

definition fill_libs :: libs where
  "fill_libs = demo_libs\<lparr>executeQuote :=
     (\<lambda>w d. [Progress approve_ok, Progress deposit_ok, Progress fill_ok])\<rparr>"

definition approve_error_libs :: libs where
  "approve_error_libs = demo_libs\<lparr>executeQuote :=
     (\<lambda>w d. [Progress approve_failed, Progress deposit_ok])\<rparr>"

definition quote_fail_libs :: libs where
  "quote_fail_libs = demo_libs\<lparr>getQuote := (\<lambda>r a. Inl (Fault ''no route''))\<rparr>"

definition demo_wallet :: wallet_client where
  "demo_wallet = \<lparr>wc_account = Some \<lparr>account_address = ''0xab12''\<rparr>,
                   wc_chain = Some mainnet, wc_rpcUrl = ''https://eth.example''\<rparr>"

definition demo_route :: route where
  "demo_route = \<lparr>originChainId = 1, destinationChainId = 10,
                  inputToken = ''0xC02aaA39b223FE8D0A0e5C4F27eAD9083C756Cc2'',
                  outputToken = ''0x4200000000000000000000000000000000000006'',
                  isNative = True\<rparr>"

text \<open>
  Inputs and variants for the swap tool: an invocation with amount \<open>0\<close>, one with a
  negative slippage, a process without the aggregator's API key, an aggregator that
  refuses the spender lookup, and one whose quote lacks \<open>tx.to\<close>.
\<close>

definition zero_amount_input :: raw_swap_input where
  "zero_amount_input =
     \<lparr>raw_fromTokenAddress = ''0xEeeeeEeeeEeEeeEeEeEeeEEEeeeeEeeeeeeeEEeE'',
      raw_toTokenAddress = ''0xA0b86991c6218b36c1d19D4a2e9Eb0cE3606eB48'',
      raw_amount = ''0'', raw_network = None, raw_slippage = Some 1\<rparr>"

definition negative_slippage_input :: raw_swap_input where
  "negative_slippage_input = zero_amount_input\<lparr>raw_amount := ''1000'', raw_slippage := Some (- 1)\<rparr>"

definition demo_swap_input :: swap_input where
  "demo_swap_input =
     \<lparr>sw_fromTokenAddress = ''0xEeeeeEeeeEeEeeEeEeEeeEEEeeeeEeeeeeeeEEeE'',
      sw_toTokenAddress = ''0xA0b86991c6218b36c1d19D4a2e9Eb0cE3606eB48'',
      sw_amount = ''1000'', sw_network = ''ethereum'', sw_slippage = 1\<rparr>"

definition demo_swap_params :: "(string \<times> json) list" where
  "demo_swap_params =
     [(''src'', JStr ''0xEeeeeEeeeEeEeeEeEeEeeEEEeeeeEeeeeeeeEEeE''),
      (''dst'', JStr ''0xA0b86991c6218b36c1d19D4a2e9Eb0cE3606eB48''),
      (''amount'', JStr ''1000''),
      (''from'', JStr ''0xab12''),
      (''slippage'', JNum 1)]"

definition no_api_key_env :: proc_env where
  "no_api_key_env = \<lparr>WALLET_PRIVATE_KEY = Some ''ab12'', ONEINCH_API_KEY = None\<rparr>"

definition spender_fail_libs :: libs where
  "spender_fail_libs = demo_libs\<lparr>axios_get :=
     (\<lambda>url params key. Inl \<lparr>ax_description = None, ax_error = None,
                              ax_message = ''Request failed with status code 429''\<rparr>)\<rparr>"

definition missing_to_libs :: libs where
  "missing_to_libs = demo_libs\<lparr>axios_get := demo_axios_get quote_without_to\<rparr>"

text \<open>A process whose private key variable is set to the empty string, and one where
  it is set to the bare prefix.\<close>

definition empty_key_env :: proc_env where
  "empty_key_env = \<lparr>WALLET_PRIVATE_KEY = Some [], ONEINCH_API_KEY = Some ''key''\<rparr>"

definition prefix_only_env :: proc_env where
  "prefix_only_env = \<lparr>WALLET_PRIVATE_KEY = Some ''0x'', ONEINCH_API_KEY = Some ''key''\<rparr>"

section \<open>Properties of the client cache\<close>

lemma getPublicClient_hit:
  "clientCache s network = Some c \<Longrightarrow> getPublicClient L network s = (Inr c, s)"
  by (simp add: getPublicClient_def)

lemma getPublicClient_ok_cached:
  "getPublicClient L network s = (Inr c, s') \<Longrightarrow> clientCache s' network = Some c"
  by (auto simp: getPublicClient_def Let_def split: option.splits sum.splits)

lemma getPublicClient_fail_miss:
  "getPublicClient L network s = (Inl e, s') \<Longrightarrow> clientCache s network = None \<and> s' = s"
  by (auto simp: getPublicClient_def Let_def split: option.splits sum.splits)

lemma getPublicClient_construction_fails:
  assumes "clientCache s network = None"
    and "getChain L (NetName network) = Inl e
      \<or> (getChain L (NetName network) = Inr ch \<and> getRpcUrl L (NetName network) = Inl e)
      \<or> (getChain L (NetName network) = Inr ch \<and> getRpcUrl L (NetName network) = Inr url
          \<and> createPublicClient L ch url = Some e)"
  shows "getPublicClient L network s = (Inl e, s)"
  using assms by (auto simp: getPublicClient_def)

lemma getPublicClient_retry:
  assumes "clientCache s network = None"
    and "getChain L' (NetName network) = Inr ch'" and "getRpcUrl L' (NetName network) = Inr url'"
    and "createPublicClient L' ch' url' = None"
  shows "\<exists>c s''. getPublicClient L' network s = (Inr c, s'')
      \<and> clientCache s'' network = Some c \<and> pc_chain c = ch' \<and> pc_rpcUrl c = url'"
  using assms by (simp add: getPublicClient_def Let_def)

text \<open>
  C7. If the construction of a read connection fails, because the registry does not
  know the network (\<open>getChain\<close> or \<open>getRpcUrl\<close> throws) or because the RPC
  configuration is refused (the construction throws), then \<open>getPublicClient\<close> fails
  with that error and leaves the module state exactly as it was, with no entry stored
  under the key. A later call under a configuration whose collaborators succeed then
  constructs the client, stores it and returns it. Conversely, whenever the call fails,
  the state is unchanged.
\<close>

theorem getPublicClient_failure_keeps_cache:
  assumes "clientCache s network = None"
    and "getChain L (NetName network) = Inl e
      \<or> (getChain L (NetName network) = Inr ch \<and> getRpcUrl L (NetName network) = Inl e)
      \<or> (getChain L (NetName network) = Inr ch \<and> getRpcUrl L (NetName network) = Inr url
          \<and> createPublicClient L ch url = Some e)"
  shows "getPublicClient L network s = (Inl e, s)
    \<and> clientCache (snd (getPublicClient L network s)) network = None
    \<and> (\<forall>L' ch' url'. getChain L' (NetName network) = Inr ch'
          \<longrightarrow> getRpcUrl L' (NetName network) = Inr url'
          \<longrightarrow> createPublicClient L' ch' url' = None
          \<longrightarrow> (\<exists>c s''. getPublicClient L' network (snd (getPublicClient L network s)) = (Inr c, s'')
                \<and> clientCache s'' network = Some c \<and> pc_chain c = ch' \<and> pc_rpcUrl c = url'))
    \<and> (\<forall>L0 e0 s0. getPublicClient L0 network s = (Inl e0, s0) \<longrightarrow> s0 = s)"
proof -
  have fails: "getPublicClient L network s = (Inl e, s)"
    using assms by (rule getPublicClient_construction_fails)
  then have after: "snd (getPublicClient L network s) = s" by simp
  have retry: "\<forall>L' ch' url'. getChain L' (NetName network) = Inr ch'
          \<longrightarrow> getRpcUrl L' (NetName network) = Inr url'
          \<longrightarrow> createPublicClient L' ch' url' = None
          \<longrightarrow> (\<exists>c s''. getPublicClient L' network s = (Inr c, s'')
                \<and> clientCache s'' network = Some c \<and> pc_chain c = ch' \<and> pc_rpcUrl c = url')"
    using getPublicClient_retry [OF assms(1)] by blast
  have unchanged: "\<forall>L0 e0 s0. getPublicClient L0 network s = (Inl e0, s0) \<longrightarrow> s0 = s"
    using getPublicClient_fail_miss by blast
  from fails retry unchanged assms(1) show ?thesis by simp
qed

theorem getPublicClient_failure_keeps_cache_witness:
  "clientCache initial_clients ''ethereum'' = None
   \<and> createPublicClient broken_libs (Some mainnet) ''https://eth.example'' = Some (Fault ''bad RPC URL'')
   \<and> getPublicClient broken_libs ''ethereum'' initial_clients
     = (Inl (Fault ''bad RPC URL''), initial_clients)
   \<and> getChain demo_libs (NetName ''not-a-chain'') = Inl (Fault ''Unsupported network'')
   \<and> getPublicClient demo_libs ''not-a-chain'' initial_clients
     = (Inl (Fault ''Unsupported network''), initial_clients)
   \<and> (\<exists>c s''. getPublicClient demo_libs ''ethereum'' initial_clients = (Inr c, s'')
        \<and> clientCache s'' ''ethereum'' = Some c \<and> pc_chain c = Some mainnet)"
proof -
  have miss: "clientCache initial_clients ''ethereum'' = None"
    by (simp add: initial_clients_def)
  have miss2: "clientCache initial_clients ''not-a-chain'' = None"
    by (simp add: initial_clients_def)
  have bch: "getChain broken_libs (NetName ''ethereum'') = Inr (Some mainnet)"
    by (simp add: broken_libs_def demo_libs_def demo_getChain_def)
  have burl: "getRpcUrl broken_libs (NetName ''ethereum'') = Inr ''https://eth.example''"
    by (simp add: broken_libs_def demo_libs_def demo_getRpcUrl_def)
  have bad: "createPublicClient broken_libs (Some mainnet) ''https://eth.example''
      = Some (Fault ''bad RPC URL'')"
    by (simp add: broken_libs_def demo_libs_def)
  have unknown: "getChain demo_libs (NetName ''not-a-chain'') = Inl (Fault ''Unsupported network'')"
    by (simp add: demo_libs_def demo_getChain_def)
  have ch: "getChain demo_libs (NetName ''ethereum'') = Inr (Some mainnet)"
    by (simp add: demo_libs_def demo_getChain_def)
  have url: "getRpcUrl demo_libs (NetName ''ethereum'') = Inr ''https://eth.example''"
    by (simp add: demo_libs_def demo_getRpcUrl_def)
  have ok: "createPublicClient demo_libs (Some mainnet) ''https://eth.example'' = None"
    by (simp add: demo_libs_def)
  have hyp1: "getChain broken_libs (NetName ''ethereum'') = Inl (Fault ''bad RPC URL'')
      \<or> (getChain broken_libs (NetName ''ethereum'') = Inr (Some mainnet)
          \<and> getRpcUrl broken_libs (NetName ''ethereum'') = Inl (Fault ''bad RPC URL''))
      \<or> (getChain broken_libs (NetName ''ethereum'') = Inr (Some mainnet)
          \<and> getRpcUrl broken_libs (NetName ''ethereum'') = Inr ''https://eth.example''
          \<and> createPublicClient broken_libs (Some mainnet) ''https://eth.example''
              = Some (Fault ''bad RPC URL''))"
    using bch burl bad by simp
  have hyp2: "getChain demo_libs (NetName ''not-a-chain'') = Inl (Fault ''Unsupported network'')
      \<or> (getChain demo_libs (NetName ''not-a-chain'') = Inr None
          \<and> getRpcUrl demo_libs (NetName ''not-a-chain'') = Inl (Fault ''Unsupported network''))
      \<or> (getChain demo_libs (NetName ''not-a-chain'') = Inr None
          \<and> getRpcUrl demo_libs (NetName ''not-a-chain'') = Inr []
          \<and> createPublicClient demo_libs None [] = Some (Fault ''Unsupported network''))"
    using unknown by simp
  note first = getPublicClient_failure_keeps_cache [OF miss hyp1]
  note second = getPublicClient_failure_keeps_cache [OF miss2 hyp2]
  from first have f1: "getPublicClient broken_libs ''ethereum'' initial_clients
      = (Inl (Fault ''bad RPC URL''), initial_clients)" by (rule conjunct1)
  from second have f2: "getPublicClient demo_libs ''not-a-chain'' initial_clients
      = (Inl (Fault ''Unsupported network''), initial_clients)" by (rule conjunct1)
  from first f1 have "\<forall>L' ch' url'. getChain L' (NetName ''ethereum'') = Inr ch'
          \<longrightarrow> getRpcUrl L' (NetName ''ethereum'') = Inr url'
          \<longrightarrow> createPublicClient L' ch' url' = None
          \<longrightarrow> (\<exists>c s''. getPublicClient L' ''ethereum'' initial_clients = (Inr c, s'')
                \<and> clientCache s'' ''ethereum'' = Some c \<and> pc_chain c = ch' \<and> pc_rpcUrl c = url')"
    by simp
  with ch url ok have retry: "\<exists>c s''. getPublicClient demo_libs ''ethereum'' initial_clients = (Inr c, s'')
        \<and> clientCache s'' ''ethereum'' = Some c \<and> pc_chain c = Some mainnet"
    by (metis (no_types, lifting))
  from miss bad f1 unknown f2 retry show ?thesis by (simp only: simp_thms)
qed

lemma getPublicClient_other_keys:
  "getPublicClient L network s = (r, s') \<Longrightarrow> k \<noteq> network \<Longrightarrow> clientCache s' k = clientCache s k"
  by (auto simp: getPublicClient_def Let_def split: option.splits sum.splits)

lemma getPublicClient_constructed:
  "getPublicClient L network s = (r, s') \<Longrightarrow> constructed s' \<le> Suc (constructed s)"
  by (auto simp: getPublicClient_def Let_def split: option.splits sum.splits)

text \<open>
  C6, as the code has it. When a call of \<open>getPublicClient\<close> with an identifier string
  returns a handle, a second call with the same string returns the identical handle,
  constructs nothing and leaves the module state as it is. The handle is stored under
  the identifier string as the caller wrote it (\<open>String(network)\<close>), every other key
  keeps its entry, and at most one client was constructed: one handle per identifier
  string.
\<close>

theorem getPublicClient_memoized:
  assumes "getPublicClient L network s = (Inr c, s1)"
  shows "getPublicClient L network s1 = (Inr c, s1)
    \<and> clientCache s1 network = Some c
    \<and> (\<forall>k. k \<noteq> network \<longrightarrow> clientCache s1 k = clientCache s k)
    \<and> constructed s1 \<le> Suc (constructed s)"
proof -
  have stored: "clientCache s1 network = Some c"
    using assms by (rule getPublicClient_ok_cached)
  then have again: "getPublicClient L network s1 = (Inr c, s1)"
    by (rule getPublicClient_hit)
  have others: "\<forall>k. k \<noteq> network \<longrightarrow> clientCache s1 k = clientCache s k"
    using assms getPublicClient_other_keys by blast
  have count: "constructed s1 \<le> Suc (constructed s)"
    using assms by (rule getPublicClient_constructed)
  from again stored others count show ?thesis by blast
qed

theorem getPublicClient_memoized_witness:
  "getPublicClient demo_libs ''ethereum'' initial_clients
     = (Inr \<lparr>pc_ref = 0, pc_chain = Some mainnet, pc_rpcUrl = ''https://eth.example''\<rparr>,
        \<lparr>clientCache = [''ethereum'' \<mapsto>
            \<lparr>pc_ref = 0, pc_chain = Some mainnet, pc_rpcUrl = ''https://eth.example''\<rparr>],
         constructed = 1\<rparr>)
   \<and> getPublicClient demo_libs ''ethereum''
        \<lparr>clientCache = [''ethereum'' \<mapsto>
            \<lparr>pc_ref = 0, pc_chain = Some mainnet, pc_rpcUrl = ''https://eth.example''\<rparr>],
         constructed = 1\<rparr>
     = (Inr \<lparr>pc_ref = 0, pc_chain = Some mainnet, pc_rpcUrl = ''https://eth.example''\<rparr>,
        \<lparr>clientCache = [''ethereum'' \<mapsto>
            \<lparr>pc_ref = 0, pc_chain = Some mainnet, pc_rpcUrl = ''https://eth.example''\<rparr>],
         constructed = 1\<rparr>)"
proof -
  have first: "getPublicClient demo_libs ''ethereum'' initial_clients
     = (Inr \<lparr>pc_ref = 0, pc_chain = Some mainnet, pc_rpcUrl = ''https://eth.example''\<rparr>,
        \<lparr>clientCache = [''ethereum'' \<mapsto>
            \<lparr>pc_ref = 0, pc_chain = Some mainnet, pc_rpcUrl = ''https://eth.example''\<rparr>],
         constructed = 1\<rparr>)"
    by (simp add: getPublicClient_def demo_libs_def demo_getChain_def demo_getRpcUrl_def
        initial_clients_def Let_def)
  from getPublicClient_memoized [OF first] first show ?thesis by simp
qed

text \<open>
  C6 as the specification states it fails: the key is the identifier string, not the
  canonical key of the resolved network. After \<open>getPublicClient('ethereum')\<close> and
  \<open>getPublicClient('1')\<close> the cache holds two distinct handles for chain 1.
\<close>

theorem getPublicClient_alias_counterexample:
  "clientCache alias_state ''ethereum''
     = Some \<lparr>pc_ref = 0, pc_chain = Some mainnet, pc_rpcUrl = ''https://eth.example''\<rparr>
   \<and> clientCache alias_state ''1''
     = Some \<lparr>pc_ref = 1, pc_chain = Some mainnet, pc_rpcUrl = ''https://eth.example''\<rparr>
   \<and> constructed alias_state = 2"
  by (simp add: alias_state_def getPublicClient_def demo_libs_def demo_getChain_def
      demo_getRpcUrl_def initial_clients_def Let_def)

section \<open>Properties of the bridge tool\<close>

lemma resolve_settled: "p \<noteq> Pending \<Longrightarrow> resolve r p = p"
  by (cases p) (simp_all add: resolve_def)

lemma reject_settled: "p \<noteq> Pending \<Longrightarrow> reject r p = p"
  by (cases p) (simp_all add: reject_def)

lemma onProgress_settled: "p \<noteq> Pending \<Longrightarrow> onProgress pr p = p"
  by (simp add: onProgress_def Let_def resolve_settled reject_settled split: option.splits)

lemma settle_settled: "p \<noteq> Pending \<Longrightarrow> settle x p = p"
  by (cases x) (simp_all add: onProgress_settled reject_settled)

lemma observe_settled: "p \<noteq> Pending \<Longrightarrow> observe xs p = p"
  by (induction xs arbitrary: p) (simp_all add: settle_settled)

lemma observe_append: "observe (xs @ ys) p = observe ys (observe xs p)"
  by (induction xs arbitrary: p) simp_all

lemma onProgress_deposit_success:
  assumes "p_step pr = ''deposit''" "p_status pr = ''txSuccess''"
    and "p_transactionHash pr = Some h" "h \<noteq> []"
  shows "onProgress pr Pending =
    Fulfilled \<lparr>content_text = ''Successfully initiated ETH bridge. Deposit Tx: '' @ h,
               isError = False, resultTxHash = Some h\<rparr>"
  using assms by (simp add: onProgress_def Let_def resolve_def reject_def)

lemma bridge_after_executeQuote:
  assumes "ExecuteQuote w d \<in> set (snd (bridge_native_eth_across L env input))"
  shows "fst (bridge_native_eth_across L env input) = observe (executeQuote L w d) Pending"
  using assms
  by (auto simp: bridge_native_eth_across_def emit_def Let_def
      split: option.splits sum.splits if_splits)

text \<open>
  C1, as the code has it. In a run of the bridge handler that reaches \<open>executeQuote\<close>,
  if a progress event with step \<open>deposit\<close> and status \<open>txSuccess\<close> carrying a
  transaction hash is observed while the call is still pending (nothing observed
  before it has settled the call), the call resolves successfully with that deposit
  transaction hash, whatever is observed afterwards: no fill event is needed, and a
  fill event (or any other event) after the resolution does not change the outcome.
\<close>

theorem bridge_resolves_on_deposit:
  assumes "ExecuteQuote w d \<in> set (snd (bridge_native_eth_across L env input))"
    and "executeQuote L w d = before @ Progress pr # after"
    and "observe before Pending = Pending"
    and "p_step pr = ''deposit''" and "p_status pr = ''txSuccess''"
    and "p_transactionHash pr = Some h" and "h \<noteq> []"
  shows "fst (bridge_native_eth_across L env input) =
    Fulfilled \<lparr>content_text = ''Successfully initiated ETH bridge. Deposit Tx: '' @ h,
               isError = False, resultTxHash = Some h\<rparr>"
proof -
  let ?r = "\<lparr>content_text = ''Successfully initiated ETH bridge. Deposit Tx: '' @ h,
             isError = False, resultTxHash = Some h\<rparr>"
  have "fst (bridge_native_eth_across L env input) = observe (executeQuote L w d) Pending"
    using assms(1) by (rule bridge_after_executeQuote)
  also have "\<dots> = observe after (settle (Progress pr) (observe before Pending))"
    by (simp add: assms(2) observe_append)
  also have "\<dots> = observe after (Fulfilled ?r)"
    using assms(3-7) by (simp add: onProgress_deposit_success)
  also have "\<dots> = Fulfilled ?r"
    by (simp add: observe_settled)
  finally show ?thesis .
qed

lemma demo_bridge_trace:
  "snd (bridge_native_eth_across fill_libs demo_env demo_bridge_input)
     = [GetQuote demo_route 1000, ExecuteQuote demo_wallet ''deposit'']"
  by (simp add: bridge_native_eth_across_def fill_libs_def demo_libs_def demo_env_def
      demo_bridge_input_def demo_getChain_def demo_getRpcUrl_def getWalletClient_def
      wethAddresses_def mainnet_def optimism_def startsWith_def emit_def Let_def
      demo_wallet_def demo_route_def)

theorem bridge_resolves_on_deposit_witness:
  "fst (bridge_native_eth_across fill_libs demo_env demo_bridge_input) =
     Fulfilled \<lparr>content_text = ''Successfully initiated ETH bridge. Deposit Tx: 0xd1'',
                isError = False, resultTxHash = Some ''0xd1''\<rparr>"
proof -
  have reached: "ExecuteQuote demo_wallet ''deposit''
      \<in> set (snd (bridge_native_eth_across fill_libs demo_env demo_bridge_input))"
    by (simp add: demo_bridge_trace)
  have events: "executeQuote fill_libs demo_wallet ''deposit''
      = [Progress approve_ok] @ Progress deposit_ok # [Progress fill_ok]"
    by (simp add: fill_libs_def)
  have pending: "observe [Progress approve_ok] Pending = Pending"
    by (simp add: onProgress_def approve_ok_def)
  have "fst (bridge_native_eth_across fill_libs demo_env demo_bridge_input) =
     Fulfilled \<lparr>content_text = ''Successfully initiated ETH bridge. Deposit Tx: '' @ ''0xd1'',
                isError = False, resultTxHash = Some ''0xd1''\<rparr>"
    by (rule bridge_resolves_on_deposit [OF reached events pending])
      (simp_all add: deposit_ok_def)
  then show ?thesis by simp
qed

text \<open>
  C1 as the specification states it fails: the handler's promise keeps its first
  settlement. When the SDK reports a failed approval and then a successful deposit with
  a transaction hash, the deposit event is observed and the call is rejected.
\<close>

theorem bridge_deposit_after_error_counterexample:
  "Progress deposit_ok \<in> set (executeQuote approve_error_libs demo_wallet ''deposit'')
   \<and> p_step deposit_ok = ''deposit'' \<and> p_status deposit_ok = ''txSuccess''
   \<and> p_transactionHash deposit_ok = Some ''0xd1''
   \<and> bridge_native_eth_across approve_error_libs demo_env demo_bridge_input
     = (RejectedWith (error_result ''Bridging failed at step approve. Reason: reverted''),
        [GetQuote demo_route 1000, ExecuteQuote demo_wallet ''deposit''])"
  by (simp add: bridge_native_eth_across_def approve_error_libs_def demo_libs_def demo_env_def
      demo_bridge_input_def demo_getChain_def demo_getRpcUrl_def getWalletClient_def
      wethAddresses_def mainnet_def optimism_def startsWith_def emit_def Let_def
      demo_wallet_def demo_route_def onProgress_def approve_failed_def deposit_ok_def
      resolve_def reject_def)

text \<open>
  C3. When the quote provider rejects, the handler attempts no deposit: \<open>getQuote\<close> is
  the only call made. But the \<open>await\<close> of \<open>getQuote\<close> stands in no \<open>try\<close>, so the
  provider's own error leaves the handler as it was thrown: the promise is rejected
  with that error, not settled with a result that marks an error.
\<close>

theorem bridge_quote_failure_escapes:
  "bridge_native_eth_across quote_fail_libs demo_env demo_bridge_input
     = (RejectedError (Fault ''no route''), [GetQuote demo_route 1000])"
  by (simp add: bridge_native_eth_across_def quote_fail_libs_def demo_libs_def demo_env_def
      demo_bridge_input_def demo_getChain_def demo_getRpcUrl_def
      wethAddresses_def mainnet_def optimism_def startsWith_def emit_def Let_def
      demo_route_def)

section \<open>Properties of the swap tool\<close>

lemma show_nat_1: "show_nat 1 = ''1''"
  by code_simp

lemma show_nat_Suc_0: "show_nat (Suc 0) = ''1''"
  using show_nat_1 by simp

lemma swap_submit_trace:
  "snd (swap_submit L c w d) = [] \<or> (\<exists>req. snd (swap_submit L c w d) = [SendTransaction req])"
  by (auto simp: swap_submit_def emit_def Let_def split: option.splits sum.splits if_splits)

lemma swap_submit_missing:
  assumes "get_prop resp ''tx'' = Inr txData"
    and "get_prop_opt txData ''to'' = None \<or> get_prop_opt txData ''data'' = None
         \<or> get_prop_opt txData ''value'' = None"
  shows "swap_submit L c w resp = (invalid_swap_data, [])"
  using assms
  by (auto simp: swap_submit_def split: option.splits)

text \<open>The handler either stops before the outer \<open>try\<close> or runs \<open>swap_try\<close>.\<close>

lemma swap_tokens_1inch_cases:
  "snd (swap_tokens_1inch L env input) = []
   \<or> (\<exists>key c w a. ONEINCH_API_KEY env = Some key
        \<and> swap_tokens_1inch L env input
          = swap_try L input c w a (''https://api.1inch.dev/swap/v6.0/'' @ show_nat (chain_id c)) key)"
  by (auto simp: swap_tokens_1inch_def Let_def split: option.splits sum.splits if_splits)

lemma swap_try_cases:
  "snd (swap_try L input c w a base key) = [HttpGet (base @ ''/approve/spender'') []]
   \<or> swap_try L input c w a base key
      = emit (HttpGet (base @ ''/approve/spender'') [])
          (emit (Delay 1100) (swap_quote L input c w a base key))"
  by (auto simp: swap_try_def emit_def split: sum.splits)

lemma swapApiParams_nonempty: "swapApiParams input a \<noteq> []"
  by (simp add: swapApiParams_def)

lemma swap_quote_response:
  "axios_get L (base @ ''/swap'') (swapApiParams input a) key = Inr resp \<Longrightarrow>
     swap_quote L input c w a base key
       = emit (HttpGet (base @ ''/swap'') (swapApiParams input a)) (swap_submit L c w resp)"
  by (simp add: swap_quote_def)

lemma swap_quote_trace:
  "\<exists>rest. snd (swap_quote L input c w a base key)
       = HttpGet (base @ ''/swap'') (swapApiParams input a) # rest
     \<and> (rest = [] \<or> (\<exists>req. rest = [SendTransaction req]))"
proof (cases "axios_get L (base @ ''/swap'') (swapApiParams input a) key")
  case (Inl e)
  then show ?thesis by (simp add: swap_quote_def emit_def)
next
  case (Inr resp)
  then have "snd (swap_quote L input c w a base key)
      = HttpGet (base @ ''/swap'') (swapApiParams input a) # snd (swap_submit L c w resp)"
    by (simp add: swap_quote_response emit_def)
  with swap_submit_trace [of L c w resp] show ?thesis by auto
qed

text \<open>What a run of the handler does, in order.\<close>

lemma swap_trace_cases:
  "snd (swap_tokens_1inch L env input) = []
   \<or> (\<exists>base. snd (swap_tokens_1inch L env input) = [HttpGet (base @ ''/approve/spender'') []])
   \<or> (\<exists>key c w a base. ONEINCH_API_KEY env = Some key
        \<and> swap_tokens_1inch L env input
          = emit (HttpGet (base @ ''/approve/spender'') [])
              (emit (Delay 1100) (swap_quote L input c w a base key)))"
proof -
  consider (early) "snd (swap_tokens_1inch L env input) = []"
    | (tried) key c w a where "ONEINCH_API_KEY env = Some key" "swap_tokens_1inch L env input
          = swap_try L input c w a (''https://api.1inch.dev/swap/v6.0/'' @ show_nat (chain_id c)) key"
    using swap_tokens_1inch_cases [of L env input] by blast
  then show ?thesis
  proof cases
    case early
    then show ?thesis by simp
  next
    case tried
    let ?base = "''https://api.1inch.dev/swap/v6.0/'' @ show_nat (chain_id c)"
    from swap_try_cases [of L input c w a ?base key] show ?thesis
    proof
      assume "snd (swap_try L input c w a ?base key) = [HttpGet (?base @ ''/approve/spender'') []]"
      with tried show ?thesis by auto
    next
      assume "swap_try L input c w a ?base key
        = emit (HttpGet (?base @ ''/approve/spender'') [])
            (emit (Delay 1100) (swap_quote L input c w a ?base key))"
      with tried show ?thesis by metis
    qed
  qed
qed

lemma swap_trace_shape:
  "snd (swap_tokens_1inch L env input) = []
   \<or> (\<exists>base. snd (swap_tokens_1inch L env input) = [HttpGet (base @ ''/approve/spender'') []])
   \<or> (\<exists>base ps rest. ps \<noteq> []
        \<and> snd (swap_tokens_1inch L env input)
          = HttpGet (base @ ''/approve/spender'') [] # Delay 1100 # HttpGet (base @ ''/swap'') ps # rest
        \<and> (rest = [] \<or> (\<exists>req. rest = [SendTransaction req])))"
proof -
  from swap_trace_cases [of L env input]
  consider (early) "snd (swap_tokens_1inch L env input) = []"
    | (spender) base where
        "snd (swap_tokens_1inch L env input) = [HttpGet (base @ ''/approve/spender'') []]"
    | (quoted) key c w a base where "swap_tokens_1inch L env input
          = emit (HttpGet (base @ ''/approve/spender'') [])
              (emit (Delay 1100) (swap_quote L input c w a base key))"
    by blast
  then show ?thesis
  proof cases
    case early
    then show ?thesis by simp
  next
    case spender
    then show ?thesis by blast
  next
    case quoted
    obtain rest where rest: "snd (swap_quote L input c w a base key)
         = HttpGet (base @ ''/swap'') (swapApiParams input a) # rest"
      and tail: "rest = [] \<or> (\<exists>req. rest = [SendTransaction req])"
      using swap_quote_trace [of L input c w a base key] by blast
    from quoted rest have "snd (swap_tokens_1inch L env input)
        = HttpGet (base @ ''/approve/spender'') [] # Delay 1100
            # HttpGet (base @ ''/swap'') (swapApiParams input a) # rest"
      by (simp add: emit_def)
    with tail swapApiParams_nonempty [of input a] show ?thesis by blast
  qed
qed

text \<open>
  C9, as the code has it. No run of the swap handler waits more than once, and a wait
  is always of 1100 milliseconds. A run waits exactly when it goes on to request the
  swap data, and then the wait stands right after the spender lookup and right before
  the swap request; a run that ends earlier (configuration missing, network or wallet
  refused, spender lookup failed) does not wait at all.
\<close>

theorem swap_waits_once:
  assumes "t = snd (swap_tokens_1inch L env input)"
  shows "length (filter is_Delay t) \<le> 1
    \<and> (\<forall>ms. Delay ms \<in> set t \<longrightarrow> ms = 1100)
    \<and> (length (filter is_Delay t) = 1 \<longleftrightarrow> length (filter is_HttpGet t) = 2)
    \<and> (length (filter is_HttpGet t) = 2 \<longrightarrow>
         (\<exists>base ps rest. t = HttpGet (base @ ''/approve/spender'') [] # Delay 1100
               # HttpGet (base @ ''/swap'') ps # rest
            \<and> filter is_Delay rest = [] \<and> filter is_HttpGet rest = []))"
proof -
  from swap_trace_shape [of L env input] assms
  consider (early) "t = []"
    | (spender) base where "t = [HttpGet (base @ ''/approve/spender'') []]"
    | (quoted) base ps where
        "t = [HttpGet (base @ ''/approve/spender'') [], Delay 1100, HttpGet (base @ ''/swap'') ps]"
    | (sent) base ps req where
        "t = [HttpGet (base @ ''/approve/spender'') [], Delay 1100, HttpGet (base @ ''/swap'') ps,
              SendTransaction req]"
    by auto
  then show ?thesis
  proof cases
    case early
    then show ?thesis by simp
  next
    case spender
    then show ?thesis by simp
  next
    case quoted
    then show ?thesis by simp
  next
    case sent
    then show ?thesis by simp
  qed
qed

lemma demo_swap_run:
  "swap_tokens_1inch demo_libs demo_env demo_swap_input =
     (Fulfilled \<lparr>content_text = ''Swap transaction submitted. Hash: 0x5e. Expected output: ? Unknown Token (raw amount, decimals: N/A)'',
                 isError = False, resultTxHash = Some ''0x5e''\<rparr>,
      [HttpGet ''https://api.1inch.dev/swap/v6.0/1/approve/spender'' [],
       Delay 1100,
       HttpGet ''https://api.1inch.dev/swap/v6.0/1/swap'' demo_swap_params,
       SendTransaction \<lparr>req_to = JStr ''0xRouter'', req_data = Some (JStr ''0xabcd''),
                        req_value = 0, req_gas = None\<rparr>])"
  by (simp add: swap_tokens_1inch_def swap_try_def swap_quote_def swap_submit_def
      swapApiParams_def demo_swap_params_def demo_libs_def demo_env_def demo_swap_input_def
      demo_getChain_def demo_getRpcUrl_def demo_axios_get_def good_quote_def
      getWalletClient_def mainnet_def startsWith_def emit_def Let_def show_nat_1 show_nat_Suc_0
      get_prop_opt_def)

theorem swap_waits_once_witness:
  "length (filter is_Delay (snd (swap_tokens_1inch demo_libs demo_env demo_swap_input))) = 1
   \<and> length (filter is_HttpGet (snd (swap_tokens_1inch demo_libs demo_env demo_swap_input))) = 2
   \<and> Delay 1100 \<in> set (snd (swap_tokens_1inch demo_libs demo_env demo_swap_input))"
  using swap_waits_once [OF refl, of demo_libs demo_env demo_swap_input]
  by (simp add: demo_swap_run)

text \<open>
  C9 as the specification states it fails: not every invocation waits. Without the
  aggregator's API key the handler returns at once, and when the spender lookup fails
  it returns after the one request; neither run contains a wait.
\<close>

theorem swap_no_wait_counterexample:
  "swap_tokens_1inch demo_libs no_api_key_env demo_swap_input
     = (Fulfilled (error_result ''Server configuration error: Missing 1inch API key.''), [])
   \<and> swap_tokens_1inch spender_fail_libs demo_env demo_swap_input
     = (Fulfilled (error_result ''Error fetching 1inch spender: Request failed with status code 429''),
        [HttpGet ''https://api.1inch.dev/swap/v6.0/1/approve/spender'' []])"
  by (simp add: swap_tokens_1inch_def swap_try_def no_api_key_env_def spender_fail_libs_def
      demo_libs_def demo_env_def demo_swap_input_def demo_getChain_def demo_getRpcUrl_def
      getWalletClient_def mainnet_def startsWith_def emit_def Let_def show_nat_1 show_nat_Suc_0)

text \<open>
  C4, as the code has it. An invocation of the swap tool whose slippage is below 0.01
  or above 50 is refused by the schema: the call fails and the handler does not run,
  so no HTTP request (and nothing else) is made. A slippage inside the range lets the
  handler run on the arguments as given, with the amount passed on unchanged: the
  schema has no test on the amount.
\<close>

theorem swap_slippage_validated:
  assumes "raw_slippage raw = Some x"
  shows "(x < 1 / 100 \<or> 50 < x \<longrightarrow>
            snd (swap_tool L env raw) = []
            \<and> (\<exists>msg. fst (swap_tool L env raw) = RejectedError (Fault msg)))
    \<and> (1 / 100 \<le> x \<and> x \<le> 50 \<longrightarrow>
            swap_tool L env raw =
              swap_tokens_1inch L env
                \<lparr>sw_fromTokenAddress = raw_fromTokenAddress raw,
                 sw_toTokenAddress = raw_toTokenAddress raw,
                 sw_amount = raw_amount raw,
                 sw_network = (case raw_network raw of None \<Rightarrow> ''ethereum'' | Some n \<Rightarrow> n),
                 sw_slippage = x\<rparr>)"
  using assms by (auto simp: swap_tool_def swap_schema_def Let_def)

theorem swap_slippage_validated_witness:
  "raw_slippage negative_slippage_input = Some (- 1) \<and> (- 1 :: rat) < 1 / 100
   \<and> swap_tool demo_libs demo_env negative_slippage_input
     = (RejectedError (Fault ''Number must be greater than or equal to 0.01''), [])"
proof -
  have s: "raw_slippage negative_slippage_input = Some (- 1)"
    by (simp add: negative_slippage_input_def zero_amount_input_def)
  have lt: "(- 1 :: rat) < 1 / 100" by simp
  from swap_slippage_validated [OF s, of demo_libs demo_env] lt
  have "snd (swap_tool demo_libs demo_env negative_slippage_input) = []" by blast
  moreover have "fst (swap_tool demo_libs demo_env negative_slippage_input)
      = RejectedError (Fault ''Number must be greater than or equal to 0.01'')"
    by (simp add: swap_tool_def swap_schema_def Let_def s)
  ultimately show ?thesis using s lt by (simp add: prod_eq_iff)
qed

text \<open>
  C4 as the specification states it fails for the amount: the schema takes any string
  as amount, and the handler does not look at it. An invocation with amount \<open>0\<close> and
  slippage 1 passes validation and makes both HTTP requests, with the amount \<open>0\<close> in
  the query of the swap request.
\<close>

theorem swap_zero_amount_counterexample:
  "raw_amount zero_amount_input = ''0''
   \<and> snd (swap_tool demo_libs demo_env zero_amount_input) =
      [HttpGet ''https://api.1inch.dev/swap/v6.0/1/approve/spender'' [],
       Delay 1100,
       HttpGet ''https://api.1inch.dev/swap/v6.0/1/swap''
         [(''src'', JStr ''0xEeeeeEeeeEeEeeEeEeEeeEEEeeeeEeeeeeeeEEeE''),
          (''dst'', JStr ''0xA0b86991c6218b36c1d19D4a2e9Eb0cE3606eB48''),
          (''amount'', JStr ''0''),
          (''from'', JStr ''0xab12''),
          (''slippage'', JNum 1)],
       SendTransaction \<lparr>req_to = JStr ''0xRouter'', req_data = Some (JStr ''0xabcd''),
                        req_value = 0, req_gas = None\<rparr>]"
  by (simp add: swap_tool_def swap_schema_def zero_amount_input_def
      swap_tokens_1inch_def swap_try_def swap_quote_def swap_submit_def
      swapApiParams_def demo_libs_def demo_env_def
      demo_getChain_def demo_getRpcUrl_def demo_axios_get_def good_quote_def
      getWalletClient_def mainnet_def startsWith_def emit_def Let_def show_nat_1
      show_nat_Suc_0 get_prop_opt_def)

text \<open>
  C8. In every run of the swap handler that requests the swap data and receives a
  response whose transaction lacks \<open>to\<close>, \<open>data\<close> or \<open>value\<close> (or that has no
  transaction at all), the call fails with the malformed-quote error and the run ends
  with the swap request: no transaction is signed or submitted.
\<close>

theorem swap_missing_tx_fields:
  assumes "HttpGet u ps \<in> set (snd (swap_tokens_1inch L env input))" and "ps \<noteq> []"
    and "ONEINCH_API_KEY env = Some key"
    and "axios_get L u ps key = Inr resp"
    and "get_prop resp ''tx'' = Inr txData"
    and "get_prop_opt txData ''to'' = None \<or> get_prop_opt txData ''data'' = None
         \<or> get_prop_opt txData ''value'' = None"
  shows "fst (swap_tokens_1inch L env input)
      = Fulfilled (error_result ''Invalid swap data received from 1inch (missing tx fields).'')
    \<and> filter is_submission (snd (swap_tokens_1inch L env input)) = []
    \<and> last (snd (swap_tokens_1inch L env input)) = HttpGet u ps"
proof -
  from swap_trace_cases [of L env input]
  consider (early) "snd (swap_tokens_1inch L env input) = []"
    | (spender) base where
        "snd (swap_tokens_1inch L env input) = [HttpGet (base @ ''/approve/spender'') []]"
    | (quoted) key' c w a base where "ONEINCH_API_KEY env = Some key'"
        "swap_tokens_1inch L env input
          = emit (HttpGet (base @ ''/approve/spender'') [])
              (emit (Delay 1100) (swap_quote L input c w a base key'))"
    by blast
  then show ?thesis
  proof cases
    case early
    with assms(1) show ?thesis by simp
  next
    case spender
    with assms(1,2) show ?thesis by simp
  next
    case quoted
    from quoted(1) assms(3) have key: "key' = key" by simp
    obtain rest where rest: "snd (swap_quote L input c w a base key)
         = HttpGet (base @ ''/swap'') (swapApiParams input a) # rest"
      and tail: "rest = [] \<or> (\<exists>req. rest = [SendTransaction req])"
      using swap_quote_trace [of L input c w a base key] by blast
    from quoted(2) key rest have trace: "snd (swap_tokens_1inch L env input)
        = HttpGet (base @ ''/approve/spender'') [] # Delay 1100
            # HttpGet (base @ ''/swap'') (swapApiParams input a) # rest"
      by (simp add: emit_def)
    with assms(1,2) tail have same: "u = base @ ''/swap''" "ps = swapApiParams input a"
      by auto
    with assms(4) have "swap_quote L input c w a base key
        = emit (HttpGet u ps) (swap_submit L c w resp)"
      by (simp add: swap_quote_response)
    also have "swap_submit L c w resp = (invalid_swap_data, [])"
      using assms(5,6) by (rule swap_submit_missing)
    finally have "swap_tokens_1inch L env input
        = (invalid_swap_data, [HttpGet (base @ ''/approve/spender'') [], Delay 1100, HttpGet u ps])"
      using quoted(2) key by (simp add: emit_def)
    then show ?thesis by (simp add: invalid_swap_data_def)
  qed
qed

lemma missing_to_response:
  "axios_get missing_to_libs ''https://api.1inch.dev/swap/v6.0/1/swap'' demo_swap_params ''key''
     = Inr (Some quote_without_to)"
  by (simp add: missing_to_libs_def demo_libs_def demo_axios_get_def demo_swap_params_def)

lemma missing_to_run:
  "swap_tokens_1inch missing_to_libs demo_env demo_swap_input =
     (Fulfilled (error_result ''Invalid swap data received from 1inch (missing tx fields).''),
      [HttpGet ''https://api.1inch.dev/swap/v6.0/1/approve/spender'' [],
       Delay 1100,
       HttpGet ''https://api.1inch.dev/swap/v6.0/1/swap'' demo_swap_params])"
  by (simp add: swap_tokens_1inch_def swap_try_def swap_quote_def swap_submit_def
      swapApiParams_def demo_swap_params_def missing_to_libs_def demo_libs_def demo_env_def
      demo_swap_input_def demo_getChain_def demo_getRpcUrl_def demo_axios_get_def
      quote_without_to_def invalid_swap_data_def
      getWalletClient_def mainnet_def startsWith_def emit_def Let_def show_nat_1
      show_nat_Suc_0 get_prop_opt_def)

theorem swap_missing_tx_fields_witness:
  "HttpGet ''https://api.1inch.dev/swap/v6.0/1/swap'' demo_swap_params
     \<in> set (snd (swap_tokens_1inch missing_to_libs demo_env demo_swap_input))
   \<and> get_prop_opt (Some (JObj [(''data'', JStr ''0xabcd''), (''value'', JStr ''0'')])) ''to'' = None
   \<and> fst (swap_tokens_1inch missing_to_libs demo_env demo_swap_input)
      = Fulfilled (error_result ''Invalid swap data received from 1inch (missing tx fields).'')
   \<and> filter is_submission (snd (swap_tokens_1inch missing_to_libs demo_env demo_swap_input)) = []"
proof -
  have reached: "HttpGet ''https://api.1inch.dev/swap/v6.0/1/swap'' demo_swap_params
     \<in> set (snd (swap_tokens_1inch missing_to_libs demo_env demo_swap_input))"
    by (simp add: missing_to_run)
  have params: "demo_swap_params \<noteq> []" by (simp add: demo_swap_params_def)
  have key: "ONEINCH_API_KEY demo_env = Some ''key''" by (simp add: demo_env_def)
  have tx: "get_prop (Some quote_without_to) ''tx''
      = Inr (Some (JObj [(''data'', JStr ''0xabcd''), (''value'', JStr ''0'')]))"
    by (simp add: quote_without_to_def)
  have no_to: "get_prop_opt (Some (JObj [(''data'', JStr ''0xabcd''), (''value'', JStr ''0'')])) ''to'' = None"
    by (simp add: get_prop_opt_def)
  from no_to have missing:
    "get_prop_opt (Some (JObj [(''data'', JStr ''0xabcd''), (''value'', JStr ''0'')])) ''to'' = None
     \<or> get_prop_opt (Some (JObj [(''data'', JStr ''0xabcd''), (''value'', JStr ''0'')])) ''data'' = None
     \<or> get_prop_opt (Some (JObj [(''data'', JStr ''0xabcd''), (''value'', JStr ''0'')])) ''value'' = None"
    by blast
  from swap_missing_tx_fields [OF reached params key missing_to_response tx missing]
    reached no_to
  show ?thesis by blast
qed

section \<open>Private keys\<close>

lemma startsWith_prefixed: "startsWith (CHR ''0'' # CHR ''x'' # k) ''0x''"
  by (simp add: startsWith_def)

lemma prefixed_nonempty: "''0x'' @ k \<noteq> []"
  by simp

lemma transferETH_prefix:
  "\<not> startsWith k ''0x'' \<Longrightarrow>
     transferETH L k dest amount network = transferETH L (''0x'' @ k) dest amount network"
  by (simp add: transferETH_def startsWith_prefixed Let_def
      cong: sum.case_cong option.case_cong prod.case_cong if_cong)

lemma transferERC20_prefix:
  "\<not> startsWith k ''0x'' \<Longrightarrow>
     transferERC20 L tok dest amount k network s
       = transferERC20 L tok dest amount (''0x'' @ k) network s"
  by (simp add: transferERC20_def startsWith_prefixed Let_def
      cong: sum.case_cong option.case_cong prod.case_cong if_cong)

lemma approveERC20_prefix:
  "\<not> startsWith k ''0x'' \<Longrightarrow>
     approveERC20 L tok spender amount k network s
       = approveERC20 L tok spender amount (''0x'' @ k) network s"
  by (simp add: approveERC20_def startsWith_prefixed Let_def
      cong: sum.case_cong option.case_cong prod.case_cong if_cong)

lemma getPrivateKey_prefix:
  "\<not> startsWith k ''0x'' \<Longrightarrow> k \<noteq> [] \<Longrightarrow>
     getPrivateKey (env\<lparr>WALLET_PRIVATE_KEY := Some k\<rparr>)
       = getPrivateKey (env\<lparr>WALLET_PRIVATE_KEY := Some (''0x'' @ k)\<rparr>)"
  by (simp add: getPrivateKey_def startsWith_prefixed Let_def
      cong: sum.case_cong option.case_cong prod.case_cong if_cong)

lemma bridge_prefix:
  "\<not> startsWith k ''0x'' \<Longrightarrow> k \<noteq> [] \<Longrightarrow>
     bridge_native_eth_across L (env\<lparr>WALLET_PRIVATE_KEY := Some k\<rparr>) input
       = bridge_native_eth_across L (env\<lparr>WALLET_PRIVATE_KEY := Some (''0x'' @ k)\<rparr>) input"
  by (simp add: bridge_native_eth_across_def startsWith_prefixed Let_def
      cong: sum.case_cong option.case_cong prod.case_cong if_cong)

lemma swap_prefix:
  "\<not> startsWith k ''0x'' \<Longrightarrow> k \<noteq> [] \<Longrightarrow>
     swap_tokens_1inch L (env\<lparr>WALLET_PRIVATE_KEY := Some k\<rparr>) input
       = swap_tokens_1inch L (env\<lparr>WALLET_PRIVATE_KEY := Some (''0x'' @ k)\<rparr>) input"
  by (simp add: swap_tokens_1inch_def startsWith_prefixed Let_def
      cong: sum.case_cong option.case_cong prod.case_cong if_cong)

text \<open>
  C10, as the code has it. \<open>transferETH\<close>, \<open>transferERC20\<close> and \<open>approveERC20\<close>,
  which receive the private key as a string, prepend \<open>0x\<close> when the prefix is absent,
  before any use: for every key string \<open>k\<close> without the prefix each of them behaves on
  \<open>k\<close> exactly as on \<open>0x\<close> followed by \<open>k\<close>. \<open>getPrivateKey\<close>, the bridge tool and
  the swap tool, which read the key from the environment, do the same for every
  non-empty \<open>k\<close> without the prefix; an empty key they treat as an unset variable.
\<close>

theorem private_key_prefix_normalised:
  assumes "\<not> startsWith k ''0x''"
  shows "transferETH L k dest amount network = transferETH L (''0x'' @ k) dest amount network
    \<and> transferERC20 L tok dest amount k network s
        = transferERC20 L tok dest amount (''0x'' @ k) network s
    \<and> approveERC20 L tok dest amount k network s
        = approveERC20 L tok dest amount (''0x'' @ k) network s
    \<and> (k \<noteq> [] \<longrightarrow>
          getPrivateKey (env\<lparr>WALLET_PRIVATE_KEY := Some k\<rparr>)
            = getPrivateKey (env\<lparr>WALLET_PRIVATE_KEY := Some (''0x'' @ k)\<rparr>)
        \<and> bridge_native_eth_across L (env\<lparr>WALLET_PRIVATE_KEY := Some k\<rparr>) binput
            = bridge_native_eth_across L (env\<lparr>WALLET_PRIVATE_KEY := Some (''0x'' @ k)\<rparr>) binput
        \<and> swap_tokens_1inch L (env\<lparr>WALLET_PRIVATE_KEY := Some k\<rparr>) sinput
            = swap_tokens_1inch L (env\<lparr>WALLET_PRIVATE_KEY := Some (''0x'' @ k)\<rparr>) sinput)"
  using assms
  by (simp add: transferETH_prefix transferERC20_prefix approveERC20_prefix
      getPrivateKey_prefix bridge_prefix swap_prefix)

theorem private_key_prefix_normalised_witness:
  "\<not> startsWith ''ab12'' ''0x'' \<and> ''ab12'' \<noteq> []
   \<and> getPrivateKey (demo_env\<lparr>WALLET_PRIVATE_KEY := Some ''ab12''\<rparr>) = Inr ''0xab12''
   \<and> getPrivateKey (demo_env\<lparr>WALLET_PRIVATE_KEY := Some ''0xab12''\<rparr>) = Inr ''0xab12''
   \<and> transferETH demo_libs ''ab12'' ''0xdead'' ''1'' ''ethereum''
       = transferETH demo_libs ''0xab12'' ''0xdead'' ''1'' ''ethereum''
   \<and> \<not> startsWith [] ''0x''
   \<and> transferETH demo_libs [] ''0xdead'' ''1'' ''ethereum''
       = transferETH demo_libs ''0x'' ''0xdead'' ''1'' ''ethereum''"
proof -
  have a: "\<not> startsWith ''ab12'' ''0x''" by (simp add: startsWith_def)
  have b: "''ab12'' \<noteq> []" by simp
  have c: "getPrivateKey (demo_env\<lparr>WALLET_PRIVATE_KEY := Some ''ab12''\<rparr>) = Inr ''0xab12''"
    by (simp add: getPrivateKey_def startsWith_def)
  have e: "\<not> startsWith [] ''0x''" by (simp add: startsWith_def)
  from private_key_prefix_normalised [OF a, where L=demo_libs and dest="''0xdead''"
      and amount="''1''" and network="''ethereum''" and env=demo_env]
    private_key_prefix_normalised [OF e, where L=demo_libs and dest="''0xdead''"
      and amount="''1''" and network="''ethereum''" and env=demo_env]
    a b c e
  show ?thesis by simp
qed

text \<open>
  C10 as the specification states it fails at the empty key. The operations that read
  the key from the environment test \<open>!privateKey\<close> before they look at the prefix, so
  on the empty string (which lacks the prefix) they report the variable as unset, while
  on the bare prefix \<open>0x\<close> they go on: \<open>getPrivateKey\<close> returns it, and the bridge
  tool goes as far as the quote and the deposit.
\<close>

theorem private_key_counterexample:
  "\<not> startsWith [] ''0x''
   \<and> getPrivateKey empty_key_env
       = Inl (Fault ''WALLET_PRIVATE_KEY environment variable is not set. Please add it to your .local.env file.'')
   \<and> getPrivateKey prefix_only_env = Inr ''0x''
   \<and> bridge_native_eth_across demo_libs empty_key_env demo_bridge_input
       = (Fulfilled (error_result ''WALLET_PRIVATE_KEY environment variable is not set.''), [])
   \<and> snd (bridge_native_eth_across demo_libs prefix_only_env demo_bridge_input)
       = [GetQuote demo_route 1000,
          ExecuteQuote \<lparr>wc_account = Some \<lparr>account_address = ''0x''\<rparr>,
                         wc_chain = Some mainnet, wc_rpcUrl = ''https://eth.example''\<rparr> ''deposit'']"
  by (simp add: startsWith_def getPrivateKey_def empty_key_env_def prefix_only_env_def
      bridge_native_eth_across_def demo_libs_def demo_bridge_input_def demo_getChain_def
      demo_getRpcUrl_def getWalletClient_def wethAddresses_def mainnet_def optimism_def
      emit_def Let_def demo_route_def)

section \<open>Properties of the amount codec\<close>

lemma digit_table:
  "\<forall>c \<in> set ''0123456789''. digit_val c < 10 \<and> digit_char (digit_val c) = c
      \<and> (digit_val c = 0 \<longleftrightarrow> c = CHR ''0'')"
  by (simp add: digit_val_def digit_char_def)

lemma digit_facts:
  assumes "is_digit c"
  shows "digit_val c < 10 \<and> digit_char (digit_val c) = c
      \<and> (digit_val c = 0 \<longleftrightarrow> c = CHR ''0'')"
proof -
  from assms have "c \<in> set ''0123456789''" by (simp only: is_digit_def)
  with digit_table show ?thesis by (rule bspec)
qed

lemma digit_val_less: "is_digit c \<Longrightarrow> digit_val c < 10"
  by (simp add: digit_facts)

lemma digit_char_val: "is_digit c \<Longrightarrow> digit_char (digit_val c) = c"
  by (simp add: digit_facts)

lemma digit_val_zero: "is_digit c \<Longrightarrow> digit_val c = 0 \<longleftrightarrow> c = CHR ''0''"
  by (simp add: digit_facts)

lemma read_nat_Nil: "read_nat [] = 0"
  by (simp add: read_nat_def)

lemma read_nat_snoc: "read_nat (xs @ [c]) = 10 * read_nat xs + digit_val c"
  by (simp add: read_nat_def)

lemma read_nat_bound: "list_all is_digit xs \<Longrightarrow> read_nat xs < 10 ^ length xs"
proof (induction xs rule: rev_induct)
  case Nil
  show ?case by (simp add: read_nat_Nil)
next
  case (snoc c xs)
  then have "read_nat xs < 10 ^ length xs" and "digit_val c < 10"
    by (simp_all add: digit_val_less)
  then have "10 * read_nat xs + digit_val c < 10 * 10 ^ length xs" by arith
  then show ?case by (simp add: read_nat_snoc)
qed

lemma read_nat_zero:
  "list_all is_digit xs \<Longrightarrow> read_nat xs = 0 \<longleftrightarrow> (\<forall>c \<in> set xs. c = CHR ''0'')"
proof (induction xs rule: rev_induct)
  case Nil
  show ?case by (simp add: read_nat_Nil)
next
  case (snoc c xs)
  then have "is_digit c" and "list_all is_digit xs" by simp_all
  with snoc.IH show ?case
    by (auto simp: read_nat_snoc digit_val_zero)
qed

lemma read_nat_zeros: "read_nat (xs @ replicate k (CHR ''0'')) = read_nat xs * 10 ^ k"
proof (induction k)
  case 0
  show ?case by simp
next
  case (Suc k)
  have "xs @ replicate (Suc k) (CHR ''0'') = (xs @ replicate k (CHR ''0'')) @ [CHR ''0'']"
    by (simp add: replicate_append_same)
  then have "read_nat (xs @ replicate (Suc k) (CHR ''0''))
      = 10 * read_nat (xs @ replicate k (CHR ''0'')) + digit_val (CHR ''0'')"
    by (simp only: read_nat_snoc)
  with Suc show ?case by (simp add: digit_val_def)
qed

text \<open>Printing what was read gives the digits back, without the leading zeros.\<close>

lemma digits_read_nat:
  "list_all is_digit xs \<Longrightarrow> digits (read_nat xs) = dropWhile (\<lambda>c. c = CHR ''0'') xs"
proof (induction xs rule: rev_induct)
  case Nil
  show ?case by (simp add: read_nat_Nil digits.simps [of 0])
next
  case (snoc c xs)
  then have dc: "is_digit c" and dx: "list_all is_digit xs" by simp_all
  from dx snoc.IH have IH: "digits (read_nat xs) = dropWhile (\<lambda>c. c = CHR ''0'') xs" by simp
  have v: "digit_val c < 10" using dc by (rule digit_val_less)
  show ?case
  proof (cases "\<forall>x \<in> set xs. x = CHR ''0''")
    case True
    then have r0: "read_nat xs = 0" using dx by (simp add: read_nat_zero)
    from True have dw: "dropWhile (\<lambda>c. c = CHR ''0'') (xs @ [c]) = dropWhile (\<lambda>c. c = CHR ''0'') [c]"
      by (simp add: dropWhile_append2)
    show ?thesis
    proof (cases "c = CHR ''0''")
      case True
      then show ?thesis using r0 dw
        by (simp add: read_nat_snoc digit_val_def digits.simps [of 0])
    next
      case False
      then have nz: "digit_val c \<noteq> 0" using dc by (simp add: digit_val_zero)
      have "digits (digit_val c) = digits 0 @ [digit_char (digit_val c)]"
        using nz v by (subst digits.simps) simp
      then show ?thesis using r0 dw False dc
        by (simp add: read_nat_snoc digits.simps [of 0] digit_char_val)
    qed
  next
    case False
    then have nz: "read_nat xs \<noteq> 0" using dx by (simp add: read_nat_zero)
    from False obtain x where "x \<in> set xs" "x \<noteq> CHR ''0''" by blast
    then have dw: "dropWhile (\<lambda>c. c = CHR ''0'') (xs @ [c]) = dropWhile (\<lambda>c. c = CHR ''0'') xs @ [c]"
      by (simp add: dropWhile_append1)
    have "digits (10 * read_nat xs + digit_val c)
        = digits ((10 * read_nat xs + digit_val c) div 10)
          @ [digit_char ((10 * read_nat xs + digit_val c) mod 10)]"
      using nz by (subst digits.simps) simp
    also have "(10 * read_nat xs + digit_val c) div 10 = read_nat xs" using v by simp
    also have "(10 * read_nat xs + digit_val c) mod 10 = digit_val c" using v by simp
    finally show ?thesis using IH dw dc by (simp add: read_nat_snoc digit_char_val)
  qed
qed

lemma takeWhile_zeros:
  "takeWhile (\<lambda>c. c = x) xs = replicate (length (takeWhile (\<lambda>c. c = x) xs)) x"
proof -
  have "\<forall>y \<in> set (takeWhile (\<lambda>c. c = x) xs). y = x"
    by (auto dest: set_takeWhileD)
  then show ?thesis by (simp add: replicate_length_same)
qed

lemma pad_left_digits:
  assumes "list_all is_digit xs"
  shows "pad_left (length xs) (digits (read_nat xs)) = xs"
proof -
  let ?P = "\<lambda>c. c = CHR ''0''"
  have "length (takeWhile ?P xs @ dropWhile ?P xs) = length xs"
    by (simp only: takeWhile_dropWhile_id)
  then have "length (takeWhile ?P xs) + length (dropWhile ?P xs) = length xs"
    by (simp only: length_append)
  then have len: "length xs - length (dropWhile ?P xs) = length (takeWhile ?P xs)"
    by arith
  have "pad_left (length xs) (digits (read_nat xs))
      = replicate (length xs - length (dropWhile ?P xs)) (CHR ''0'') @ dropWhile ?P xs"
    using assms by (simp only: pad_left_def digits_read_nat)
  also have "\<dots> = replicate (length (takeWhile ?P xs)) (CHR ''0'') @ dropWhile ?P xs"
    by (simp only: len)
  also have "\<dots> = takeWhile ?P xs @ dropWhile ?P xs"
    using takeWhile_zeros [of "CHR ''0''" xs] by (simp only:)
  also have "\<dots> = xs" by (simp only: takeWhile_dropWhile_id)
  finally show ?thesis .
qed

lemma strip_trailing_zeros_padding:
  "strip_trailing_zeros (xs @ replicate k (CHR ''0'')) = strip_trailing_zeros xs"
proof -
  have "dropWhile (\<lambda>c. c = CHR ''0'') (replicate k (CHR ''0'') @ rev xs)
      = dropWhile (\<lambda>c. c = CHR ''0'') (rev xs)"
    by (rule dropWhile_append2) simp
  then show ?thesis by (simp add: strip_trailing_zeros_def)
qed

lemma show_nat_read_nat:
  assumes "list_all is_digit xs"
  shows "show_nat (read_nat xs)
    = (if dropWhile (\<lambda>c. c = CHR ''0'') xs = [] then ''0'' else dropWhile (\<lambda>c. c = CHR ''0'') xs)"
proof (cases "read_nat xs = 0")
  case True
  then have "\<forall>c \<in> set xs. c = CHR ''0''" using assms by (simp add: read_nat_zero)
  then have e: "dropWhile (\<lambda>c. c = CHR ''0'') xs = []" by simp
  have a: "show_nat (read_nat xs) = ''0''"
    by (subst show_nat_def) (rule if_P [OF True])
  have b: "(if dropWhile (\<lambda>c. c = CHR ''0'') xs = [] then ''0''
            else dropWhile (\<lambda>c. c = CHR ''0'') xs) = ''0''"
    by (rule if_P [OF e])
  show ?thesis by (simp only: a b)
next
  case False
  then have "\<not> (\<forall>c \<in> set xs. c = CHR ''0'')" using assms by (simp add: read_nat_zero)
  then have e: "dropWhile (\<lambda>c. c = CHR ''0'') xs \<noteq> []" by simp
  have d: "digits (read_nat xs) = dropWhile (\<lambda>c. c = CHR ''0'') xs"
    using assms by (rule digits_read_nat)
  have a: "show_nat (read_nat xs) = digits (read_nat xs)"
    by (subst show_nat_def) (rule if_not_P [OF False])
  have b: "(if dropWhile (\<lambda>c. c = CHR ''0'') xs = [] then ''0''
            else dropWhile (\<lambda>c. c = CHR ''0'') xs) = dropWhile (\<lambda>c. c = CHR ''0'') xs"
    by (rule if_not_P [OF e])
  show ?thesis by (simp only: a b d)
qed


lemma base_units_value:
  assumes "valid_decimal s" and "length (fraction_part s) \<le> d"
  shows "toBaseUnits s d
    = Inr (read_nat (integer_part s) * 10 ^ d
           + read_nat (fraction_part s @ replicate (d - length (fraction_part s)) (CHR ''0'')))"
  using assms by (simp add: toBaseUnits_def read_nat_zeros)

lemma human_units_of_digits:
  assumes "list_all is_digit ip" and "list_all is_digit fp" and "length fp \<le> d"
  shows "toHumanUnits (read_nat ip * 10 ^ d + read_nat (fp @ replicate (d - length fp) (CHR ''0''))) d
    = (if dropWhile (\<lambda>c. c = CHR ''0'') ip = [] then ''0'' else dropWhile (\<lambda>c. c = CHR ''0'') ip)
      @ (if strip_trailing_zeros fp = [] then [] else ''.'' @ strip_trailing_zeros fp)"
proof -
  let ?padded = "fp @ replicate (d - length fp) (CHR ''0'')"
  let ?raw = "read_nat ip * 10 ^ d + read_nat ?padded"
  have zero: "is_digit (CHR ''0'')" by (simp add: is_digit_def)
  have "list_all is_digit (replicate (d - length fp) (CHR ''0''))"
    using zero by (simp add: list_all_iff)
  with assms(2) have dp: "list_all is_digit ?padded" by simp
  have lp: "length ?padded = d" using assms(3) by simp
  have "read_nat ?padded < 10 ^ length ?padded" using dp by (rule read_nat_bound)
  then have small: "read_nat ?padded < 10 ^ d" by (simp only: lp)
  have whole: "?raw div 10 ^ d = read_nat ip" using small by simp
  have part: "?raw mod 10 ^ d = read_nat ?padded" using small by simp
  have "pad_left (length ?padded) (digits (read_nat ?padded)) = ?padded"
    using dp by (rule pad_left_digits)
  then have pad: "pad_left d (digits (read_nat ?padded)) = ?padded" by (simp only: lp)
  have frac: "strip_trailing_zeros (pad_left d (digits (?raw mod 10 ^ d))) = strip_trailing_zeros fp"
    by (simp only: part pad strip_trailing_zeros_padding)
  have int: "show_nat (?raw div 10 ^ d)
      = (if dropWhile (\<lambda>c. c = CHR ''0'') ip = [] then ''0'' else dropWhile (\<lambda>c. c = CHR ''0'') ip)"
    using assms(1) by (simp only: whole show_nat_read_nat)
  show ?thesis
    unfolding toHumanUnits_def Let_def frac int by simp
qed

text \<open>
  C2. For every valid decimal string \<open>s\<close> with at most \<open>d\<close> fractional digits, the
  conversion to base units succeeds, and formatting the resulting integer with the same
  decimal count gives the canonical form of \<open>s\<close>.
\<close>

theorem codec_round_trip:
  assumes "valid_decimal s" and "length (fraction_part s) \<le> d"
  shows "\<exists>raw. toBaseUnits s d = Inr raw \<and> toHumanUnits raw d = canonicalForm s"
proof -
  from assms(1) have di: "list_all is_digit (integer_part s)"
    and df: "list_all is_digit (fraction_part s)"
    by (simp_all add: valid_decimal_def)
  have "toHumanUnits (read_nat (integer_part s) * 10 ^ d
           + read_nat (fraction_part s @ replicate (d - length (fraction_part s)) (CHR ''0''))) d
      = canonicalForm s"
    unfolding canonicalForm_def Let_def
    using di df assms(2) by (rule human_units_of_digits)
  with base_units_value [OF assms] show ?thesis by (rule_tac x = "read_nat (integer_part s) * 10 ^ d
           + read_nat (fraction_part s @ replicate (d - length (fraction_part s)) (CHR ''0''))" in exI) simp
qed

lemma sample_amount_parts:
  "integer_part ''001.500'' = ''001''" "fraction_part ''001.500'' = ''500''"
  by (simp_all add: integer_part_def fraction_part_def)

lemma sample_amount_valid: "valid_decimal ''001.500''"
  by (simp add: valid_decimal_def sample_amount_parts is_digit_def)

theorem codec_round_trip_witness:
  "valid_decimal ''001.500'' \<and> length (fraction_part ''001.500'') \<le> 6
   \<and> canonicalForm ''001.500'' = ''1.5''
   \<and> (\<exists>raw. toBaseUnits ''001.500'' 6 = Inr raw \<and> toHumanUnits raw 6 = ''1.5'')"
proof -
  have len: "length (fraction_part ''001.500'') \<le> 6" by (simp add: sample_amount_parts)
  have canon: "canonicalForm ''001.500'' = ''1.5''"
    by (simp add: canonicalForm_def sample_amount_parts strip_trailing_zeros_def)
  from codec_round_trip [OF sample_amount_valid len] canon sample_amount_valid len
  show ?thesis by simp
qed


section \<open>Amounts in the token transfers\<close>

lemma transferERC20_conversion_fails:
  assumes "resolveAddress L tok net = Inr ta" and "resolveAddress L dest net = Inr da"
    and "getPublicClient L net s = (Inr c, s1)"
    and "read_decimals L c ta = Inr d" and "read_symbol L c ta = Inr symb"
    and "parseUnits L amount d = Inl e"
  shows "transferERC20 L tok dest amount k net s = ((Inl e, s1), [])"
  using assms by (simp add: transferERC20_def)

lemma approveERC20_conversion_fails:
  assumes "resolveAddress L tok net = Inr ta" and "resolveAddress L dest net = Inr da"
    and "getPublicClient L net s = (Inr c, s1)"
    and "read_decimals L c ta = Inr d" and "read_symbol L c ta = Inr symb"
    and "parseUnits L amount d = Inl e"
  shows "approveERC20 L tok dest amount k net s = ((Inl e, s1), [])"
  using assms by (simp add: approveERC20_def)

lemma transferERC20_writes_converted:
  assumes "resolveAddress L tok net = Inr ta" and "resolveAddress L dest net = Inr da"
    and "getPublicClient L net s = (Inr c, s1)"
    and "read_decimals L c ta = Inr d" and "read_symbol L c ta = Inr symb"
    and "parseUnits L amount d = Inr raw"
    and "getWalletClient L (if \<not> startsWith k ''0x'' then ''0x'' @ k else k) (NetName net) = Inr w"
  shows "snd (transferERC20 L tok dest amount k net s)
    = [WriteContract \<lparr>cc_address = ta, cc_functionName = ''transfer'',
                      cc_recipient = da, cc_amount = raw\<rparr>]"
  using assms by (simp add: transferERC20_def emit_def Let_def)

lemma approveERC20_writes_converted:
  assumes "resolveAddress L tok net = Inr ta" and "resolveAddress L dest net = Inr da"
    and "getPublicClient L net s = (Inr c, s1)"
    and "read_decimals L c ta = Inr d" and "read_symbol L c ta = Inr symb"
    and "parseUnits L amount d = Inr raw"
    and "getWalletClient L (if \<not> startsWith k ''0x'' then ''0x'' @ k else k) (NetName net) = Inr w"
  shows "snd (approveERC20 L tok dest amount k net s)
    = [WriteContract \<lparr>cc_address = ta, cc_functionName = ''approve'',
                      cc_recipient = da, cc_amount = raw\<rparr>]"
  using assms by (simp add: approveERC20_def emit_def Let_def)

text \<open>
  C5, as the code has it. \<open>transferERC20\<close> and \<open>approveERC20\<close> make no test of the
  amount themselves; once the addresses are resolved and the token's decimals and
  symbol are read, the outcome of the imported conversion decides. When the conversion
  throws, the call fails with the conversion's own error, before the wallet client is
  made, and no transaction is written. When the conversion returns an integer, that
  integer is written to the contract as it is, whatever the number of fractional
  digits or the sign of the amount string was.
\<close>

theorem erc20_amount_follows_conversion:
  assumes "resolveAddress L tok net = Inr ta" and "resolveAddress L dest net = Inr da"
    and "getPublicClient L net s = (Inr c, s1)"
    and "read_decimals L c ta = Inr d" and "read_symbol L c ta = Inr symb"
  shows "(parseUnits L amount d = Inl e \<longrightarrow>
            transferERC20 L tok dest amount k net s = ((Inl e, s1), [])
            \<and> approveERC20 L tok dest amount k net s = ((Inl e, s1), []))
    \<and> (parseUnits L amount d = Inr raw
          \<and> getWalletClient L (if \<not> startsWith k ''0x'' then ''0x'' @ k else k) (NetName net) = Inr w
          \<longrightarrow>
            snd (transferERC20 L tok dest amount k net s)
              = [WriteContract \<lparr>cc_address = ta, cc_functionName = ''transfer'',
                                cc_recipient = da, cc_amount = raw\<rparr>]
            \<and> snd (approveERC20 L tok dest amount k net s)
              = [WriteContract \<lparr>cc_address = ta, cc_functionName = ''approve'',
                                cc_recipient = da, cc_amount = raw\<rparr>])"
  using transferERC20_conversion_fails [OF assms] approveERC20_conversion_fails [OF assms]
    transferERC20_writes_converted [OF assms] approveERC20_writes_converted [OF assms]
  by simp

lemma demo_public_client:
  "getPublicClient demo_libs ''ethereum'' initial_clients
     = (Inr \<lparr>pc_ref = 0, pc_chain = Some mainnet, pc_rpcUrl = ''https://eth.example''\<rparr>,
        \<lparr>clientCache = [''ethereum'' \<mapsto>
            \<lparr>pc_ref = 0, pc_chain = Some mainnet, pc_rpcUrl = ''https://eth.example''\<rparr>],
         constructed = 1\<rparr>)"
  by (simp add: getPublicClient_def demo_libs_def demo_getChain_def demo_getRpcUrl_def
      initial_clients_def Let_def)

lemma demo_stages:
  "resolveAddress demo_libs ''0xToken'' ''ethereum'' = Inr ''0xToken''"
  "resolveAddress demo_libs ''0xdead'' ''ethereum'' = Inr ''0xdead''"
  "read_decimals demo_libs \<lparr>pc_ref = 0, pc_chain = Some mainnet,
      pc_rpcUrl = ''https://eth.example''\<rparr> ''0xToken'' = Inr 2"
  "read_symbol demo_libs \<lparr>pc_ref = 0, pc_chain = Some mainnet,
      pc_rpcUrl = ''https://eth.example''\<rparr> ''0xToken'' = Inr ''TKN''"
  by (simp_all add: demo_libs_def)

lemma demo_conversions:
  "parseUnits demo_libs ''abc'' 2 = Inl (Fault ''InvalidDecimalNumberError'')"
  "parseUnits demo_libs ''2.5'' 2 = Inr 250"
  "parseUnits demo_libs ''1.234'' 2 = Inr 123"
  "parseUnits demo_libs ''0.999'' 2 = Inr 100"
  "parseUnits demo_libs ''-1'' 2 = Inr (- 100)"
  by (simp_all add: demo_libs_def rounding_parseUnits_def integer_part_def fraction_part_def
      is_digit_def read_nat_def digit_val_def Let_def)

lemma demo_wallet_for_key:
  "getWalletClient demo_libs (if \<not> startsWith ''ab12'' ''0x'' then ''0x'' @ ''ab12'' else ''ab12'')
     (NetName ''ethereum'') = Inr demo_wallet"
  by (simp add: getWalletClient_def demo_libs_def demo_getChain_def demo_getRpcUrl_def
      startsWith_def demo_wallet_def)

theorem erc20_amount_follows_conversion_witness:
  "parseUnits demo_libs ''abc'' 2 = Inl (Fault ''InvalidDecimalNumberError'')
   \<and> transferERC20 demo_libs ''0xToken'' ''0xdead'' ''abc'' ''ab12'' ''ethereum'' initial_clients
     = ((Inl (Fault ''InvalidDecimalNumberError''),
         \<lparr>clientCache = [''ethereum'' \<mapsto>
            \<lparr>pc_ref = 0, pc_chain = Some mainnet, pc_rpcUrl = ''https://eth.example''\<rparr>],
          constructed = 1\<rparr>), [])
   \<and> parseUnits demo_libs ''2.5'' 2 = Inr 250
   \<and> snd (approveERC20 demo_libs ''0xToken'' ''0xdead'' ''2.5'' ''ab12'' ''ethereum'' initial_clients)
     = [WriteContract \<lparr>cc_address = ''0xToken'', cc_functionName = ''approve'',
                       cc_recipient = ''0xdead'', cc_amount = 250\<rparr>]"
proof -
  note fails = erc20_amount_follows_conversion [OF demo_stages(1) demo_stages(2)
      demo_public_client demo_stages(3) demo_stages(4),
      where amount="''abc''" and e="Fault ''InvalidDecimalNumberError''" and k="''ab12''"]
  note writes = erc20_amount_follows_conversion [OF demo_stages(1) demo_stages(2)
      demo_public_client demo_stages(3) demo_stages(4),
      where amount="''2.5''" and raw=250 and k="''ab12''" and w=demo_wallet]
  from fails demo_conversions(1)
  have a: "transferERC20 demo_libs ''0xToken'' ''0xdead'' ''abc'' ''ab12'' ''ethereum'' initial_clients
     = ((Inl (Fault ''InvalidDecimalNumberError''),
         \<lparr>clientCache = [''ethereum'' \<mapsto>
            \<lparr>pc_ref = 0, pc_chain = Some mainnet, pc_rpcUrl = ''https://eth.example''\<rparr>],
          constructed = 1\<rparr>), [])"
    by (simp only: simp_thms)
  from writes demo_conversions(2) demo_wallet_for_key
  have b: "snd (approveERC20 demo_libs ''0xToken'' ''0xdead'' ''2.5'' ''ab12'' ''ethereum'' initial_clients)
     = [WriteContract \<lparr>cc_address = ''0xToken'', cc_functionName = ''approve'',
                       cc_recipient = ''0xdead'', cc_amount = 250\<rparr>]"
    by (simp only: simp_thms)
  from a b demo_conversions(1) demo_conversions(2) show ?thesis by (simp only: simp_thms)
qed

text \<open>
  C5 as the specification states it fails: nothing in \<open>transferERC20\<close> or
  \<open>approveERC20\<close> rejects an amount, and a conversion that rounds lets an amount with
  too many fractional digits, or a negative one, through. Under such a conversion
  \<open>1.234\<close> at 2 decimals (three fractional digits) is transferred as 123, \<open>0.999\<close> is
  approved as 100, and \<open>-1\<close> is transferred as -100; no call fails.
\<close>

theorem overprecise_amount_counterexample:
  "2 < length (fraction_part ''1.234'')
   \<and> transferERC20 demo_libs ''0xToken'' ''0xdead'' ''1.234'' ''ab12'' ''ethereum'' initial_clients
     = ((Inr \<lparr>out_txHash = ''0x3c'', out_raw = 123, out_formatted = ''1.234'',
               out_symbol = ''TKN'', out_decimals = 2\<rparr>,
         \<lparr>clientCache = [''ethereum'' \<mapsto>
            \<lparr>pc_ref = 0, pc_chain = Some mainnet, pc_rpcUrl = ''https://eth.example''\<rparr>],
          constructed = 1\<rparr>),
        [WriteContract \<lparr>cc_address = ''0xToken'', cc_functionName = ''transfer'',
                          cc_recipient = ''0xdead'', cc_amount = 123\<rparr>])
   \<and> snd (approveERC20 demo_libs ''0xToken'' ''0xdead'' ''0.999'' ''ab12'' ''ethereum'' initial_clients)
     = [WriteContract \<lparr>cc_address = ''0xToken'', cc_functionName = ''approve'',
                       cc_recipient = ''0xdead'', cc_amount = 100\<rparr>]
   \<and> snd (transferERC20 demo_libs ''0xToken'' ''0xdead'' ''-1'' ''ab12'' ''ethereum'' initial_clients)
     = [WriteContract \<lparr>cc_address = ''0xToken'', cc_functionName = ''transfer'',
                       cc_recipient = ''0xdead'', cc_amount = - 100\<rparr>]"
proof -
  have long: "2 < length (fraction_part ''1.234'')" by (simp add: fraction_part_def)
  have wallet: "getWalletClient demo_libs ''0xab12'' (NetName ''ethereum'') = Inr demo_wallet"
    using demo_wallet_for_key by (simp add: startsWith_def)
  have submitted: "writeContract demo_libs w call = Inr ''0x3c''" for w call
    by (simp add: demo_libs_def)
  have t1: "transferERC20 demo_libs ''0xToken'' ''0xdead'' ''1.234'' ''ab12'' ''ethereum'' initial_clients
     = ((Inr \<lparr>out_txHash = ''0x3c'', out_raw = 123, out_formatted = ''1.234'',
               out_symbol = ''TKN'', out_decimals = 2\<rparr>,
         \<lparr>clientCache = [''ethereum'' \<mapsto>
            \<lparr>pc_ref = 0, pc_chain = Some mainnet, pc_rpcUrl = ''https://eth.example''\<rparr>],
          constructed = 1\<rparr>),
        [WriteContract \<lparr>cc_address = ''0xToken'', cc_functionName = ''transfer'',
                          cc_recipient = ''0xdead'', cc_amount = 123\<rparr>])"
    by (simp add: transferERC20_def demo_stages demo_public_client demo_conversions
        startsWith_def wallet submitted emit_def Let_def)
  have t2: "snd (approveERC20 demo_libs ''0xToken'' ''0xdead'' ''0.999'' ''ab12'' ''ethereum'' initial_clients)
     = [WriteContract \<lparr>cc_address = ''0xToken'', cc_functionName = ''approve'',
                       cc_recipient = ''0xdead'', cc_amount = 100\<rparr>]"
    by (simp add: approveERC20_def demo_stages demo_public_client demo_conversions
        startsWith_def wallet submitted emit_def Let_def)
  have t3: "snd (transferERC20 demo_libs ''0xToken'' ''0xdead'' ''-1'' ''ab12'' ''ethereum'' initial_clients)
     = [WriteContract \<lparr>cc_address = ''0xToken'', cc_functionName = ''transfer'',
                       cc_recipient = ''0xdead'', cc_amount = - 100\<rparr>]"
    by (simp add: transferERC20_def demo_stages demo_public_client demo_conversions
        startsWith_def wallet submitted emit_def Let_def)
  from long t1 t2 t3 show ?thesis by (simp only: simp_thms)
qed

end
